theory Spec2Isabelle
  imports Main "HOL-Library.AList"
begin

section \<open>Decoded JSON values and the Python operations on them\<close>

text \<open>
  Every record of \<^verbatim>\<open>db_manager.py\<close> is a Python dict decoded from JSON
  (\<^verbatim>\<open>Dict[str, Any]\<close>), and the code branches on the run-time type of the values
  (\<^verbatim>\<open>isinstance(day_data, dict)\<close>, truthiness, \<^verbatim>\<open>is not None\<close>). The model keeps
  that: a record is a \<open>json\<close> value, an object is an association list in insertion
  order with \<open>AList.update\<close> as item assignment. JSON floats are not modelled.
  Python's \<^verbatim>\<open>==\<close> is HOL equality, which is what it is on strings and \<^verbatim>\<open>None\<close>
  (Python also identifies \<^verbatim>\<open>True\<close> with \<^verbatim>\<open>1\<close> and ignores the key order of
  dicts; identifiers here are strings).
\<close>

datatype json =
    JNull
  | JBool bool
  | JInt int
  | JStr string
  | JList "json list"
  | JObj "(string \<times> json) list"

datatype error = ValueError string | AttributeError | TypeError | KeyError

primrec ebind :: "error + 'a \<Rightarrow> ('a \<Rightarrow> error + 'b) \<Rightarrow> error + 'b" where
  "ebind (Inl e) f = Inl e"
| "ebind (Inr x) f = f x"

text \<open>\<^verbatim>\<open>bool(x)\<close>: the truth value Python's \<^verbatim>\<open>if x\<close> and \<^verbatim>\<open>not x\<close> use.\<close>

fun truthy :: "json \<Rightarrow> bool" where
  "truthy JNull = False"
| "truthy (JBool b) = b"
| "truthy (JInt i) = (i \<noteq> 0)"
| "truthy (JStr s) = (s \<noteq> [])"
| "truthy (JList xs) = (xs \<noteq> [])"
| "truthy (JObj d) = (d \<noteq> [])"

fun is_str :: "json \<Rightarrow> bool" where
  "is_str (JStr s) = True"
| "is_str v = False"

text \<open>Lists and dicts are unhashable: putting one into a set raises TypeError.\<close>

fun hashable :: "json \<Rightarrow> bool" where
  "hashable (JList xs) = False"
| "hashable (JObj d) = False"
| "hashable v = True"

text \<open>A value used as a number; \<^verbatim>\<open>bool\<close> is a subclass of \<^verbatim>\<open>int\<close>.\<close>

fun as_int :: "json \<Rightarrow> int option" where
  "as_int (JInt i) = Some i"
| "as_int (JBool b) = Some (if b then 1 else 0)"
| "as_int v = None"

definition has_key :: "(string \<times> json) list \<Rightarrow> string \<Rightarrow> bool" where
  "has_key d k = (map_of d k \<noteq> None)"

definition dict_get :: "(string \<times> json) list \<Rightarrow> string \<Rightarrow> json \<Rightarrow> json" where
  "dict_get d k dflt = (case map_of d k of None \<Rightarrow> dflt | Some v \<Rightarrow> v)"

text \<open>\<^verbatim>\<open>x.get(k)\<close> and \<^verbatim>\<open>x.get(k, dflt)\<close>: only a dict has \<^verbatim>\<open>get\<close>.\<close>

fun py_get_default :: "json \<Rightarrow> string \<Rightarrow> json \<Rightarrow> error + json" where
  "py_get_default (JObj d) k dflt = Inr (dict_get d k dflt)"
| "py_get_default v k dflt = Inl AttributeError"

definition py_get :: "json \<Rightarrow> string \<Rightarrow> error + json" where
  "py_get x k = py_get_default x k JNull"

text \<open>\<^verbatim>\<open>d[k]\<close> on a dict: KeyError when the key is missing.\<close>

definition dict_index :: "(string \<times> json) list \<Rightarrow> string \<Rightarrow> error + json" where
  "dict_index d k = (case map_of d k of None \<Rightarrow> Inl KeyError | Some v \<Rightarrow> Inr v)"

text \<open>
  \<^verbatim>\<open>for x in v\<close>: a list gives its elements, a dict its keys, a string its
  characters; anything else is not iterable.
\<close>

fun py_iter :: "json \<Rightarrow> error + json list" where
  "py_iter (JList xs) = Inr xs"
| "py_iter (JObj d) = Inr (map (\<lambda>kv. JStr (fst kv)) d)"
| "py_iter (JStr s) = Inr (map (\<lambda>c. JStr [c]) s)"
| "py_iter v = Inl TypeError"

text \<open>\<^verbatim>\<open>str(i)\<close> inside an f-string, for the positive loop counters.\<close>

fun str_nat :: "nat \<Rightarrow> string" where
  "str_nat n =
     (if n < 10 then [''0123456789'' ! n]
      else str_nat (n div 10) @ [''0123456789'' ! (n mod 10)])"

declare str_nat.simps [simp del]

section \<open>The environment of one call\<close>

text \<open>
  What a call reads from outside the repository: the clock
  (\<^verbatim>\<open>datetime.utcnow()\<close>, in microseconds; the readings of one call are taken to be
  the same instant, no branch compares two of them), the library functions
  \<^verbatim>\<open>isoformat\<close>, \<^verbatim>\<open>datetime.fromisoformat\<close> (\<open>None\<close>: it raises ValueError),
  \<^verbatim>\<open>json.loads\<close> (\<open>None\<close>: it raises) and \<^verbatim>\<open>random.choices\<close>.
\<close>

record env =
  utcnow :: int
  isoformat :: "int \<Rightarrow> string"
  fromisoformat :: "string \<Rightarrow> int option"
  json_loads :: "string \<Rightarrow> json option"
  random_choices :: "string \<Rightarrow> nat \<Rightarrow> string"

definition now_iso :: "env \<Rightarrow> json" where
  "now_iso env = JStr (isoformat env (utcnow env))"

definition ascii_uppercase :: string where
  "ascii_uppercase = ''ABCDEFGHIJKLMNOPQRSTUVWXYZ''"

definition digits :: string where
  "digits = ''0123456789''"

definition generate_qr_code :: "env \<Rightarrow> string" where
  "generate_qr_code env = random_choices env (ascii_uppercase @ digits) 8"

section \<open>The file backend as a keyed store\<close>

text \<open>
  \<^verbatim>\<open>FileBackend\<close> keeps one JSON file per class, per (class, date) QR session and
  one enrollment list per class. The directory layout is abstracted to the keys.
\<close>

record store =
  classes :: "string \<rightharpoonup> json"
  enrollments :: "string \<Rightarrow> json list"
  qr_sessions :: "string \<times> string \<rightharpoonup> json"

text \<open>\<^verbatim>\<open>get_class\<close>: \<^verbatim>\<open>None\<close> when there is no file or its content is falsy.\<close>

definition get_class :: "store \<Rightarrow> string \<Rightarrow> json" where
  "get_class st class_id =
     (case classes st class_id of
        None \<Rightarrow> JNull
      | Some class_data \<Rightarrow> if truthy class_data then class_data else JNull)"

definition get_qr_session :: "store \<Rightarrow> string \<Rightarrow> string \<Rightarrow> json" where
  "get_qr_session st class_id date =
     (case qr_sessions st (class_id, date) of None \<Rightarrow> JNull | Some s \<Rightarrow> s)"

definition get_enrollments :: "store \<Rightarrow> string \<Rightarrow> json list" where
  "get_enrollments st class_id = enrollments st class_id"

definition create_qr_session :: "store \<Rightarrow> string \<Rightarrow> string \<Rightarrow> json \<Rightarrow> store" where
  "create_qr_session st class_id date session_data =
     st\<lparr>qr_sessions := (qr_sessions st)((class_id, date) \<mapsto> session_data)\<rparr>"

text \<open>
  \<^verbatim>\<open>update_qr_session\<close> stamps \<^verbatim>\<open>updated_at\<close> into the caller's dict and writes it;
  the stamped dict is returned too, since the caller keeps using the same object.
\<close>

definition stamp :: "env \<Rightarrow> (string \<times> json) list \<Rightarrow> (string \<times> json) list" where
  "stamp env d = AList.update ''updated_at'' (now_iso env) d"

definition update_qr_session ::
  "env \<Rightarrow> store \<Rightarrow> string \<Rightarrow> string \<Rightarrow> (string \<times> json) list \<Rightarrow> store" where
  "update_qr_session env st class_id date session_data =
     st\<lparr>qr_sessions := (qr_sessions st)((class_id, date) \<mapsto> JObj (stamp env session_data))\<rparr>"

text \<open>
  \<^verbatim>\<open>update_class\<close> takes the teacher from the record (or, when that is falsy, from
  the stored class), writes nothing when it finds none, and joins it into the file
  path, which raises TypeError for a teacher id that is not a string.
\<close>

definition update_class ::
  "env \<Rightarrow> store \<Rightarrow> string \<Rightarrow> (string \<times> json) list \<Rightarrow> error + store" where
  "update_class env st class_id class_data =
     (let teacher_id = dict_get class_data ''teacher_id'' JNull in
      ebind (if truthy teacher_id then Inr teacher_id
             else (let existing = get_class st class_id in
                   if truthy existing then py_get existing ''teacher_id'' else Inr teacher_id))
        (\<lambda>teacher_id.
           if \<not> truthy teacher_id then Inr st
           else if \<not> is_str teacher_id then Inl TypeError
           else Inr (st\<lparr>classes := (classes st)(class_id \<mapsto> JObj (stamp env class_data))\<rparr>)))"

section \<open>Counting the sessions of a date\<close>

text \<open>\<^verbatim>\<open>len([s for s in sessions if s.get('status') is not None])\<close>\<close>

fun count_valid_marks :: "json list \<Rightarrow> error + int" where
  "count_valid_marks [] = Inr 0"
| "count_valid_marks (s # ss) =
     ebind (py_get s ''status'') (\<lambda>status.
     ebind (count_valid_marks ss) (\<lambda>n.
       Inr (if status \<noteq> JNull then n + 1 else n)))"

text \<open>The body of the loop over the students: the new \<^verbatim>\<open>max_sessions\<close>.\<close>

definition day_max :: "int \<Rightarrow> json \<Rightarrow> error + int" where
  "day_max max_sessions day_data =
     (if \<not> truthy day_data then Inr max_sessions
      else case day_data of
        JObj d \<Rightarrow>
          if has_key d ''sessions'' then
            ebind (py_iter (dict_get d ''sessions'' (JList []))) (\<lambda>sessions.
            ebind (count_valid_marks sessions) (\<lambda>session_count.
              Inr (max max_sessions session_count)))
          else if has_key d ''status'' then
            (if dict_get d ''status'' JNull \<noteq> JNull then
               (case as_int (dict_get d ''count'' (JInt 1)) of
                  None \<Rightarrow> Inl TypeError
                | Some count \<Rightarrow> Inr (max max_sessions count))
             else Inr max_sessions)
          else Inr max_sessions
      | JStr s \<Rightarrow> Inr (max max_sessions 1)
      | _ \<Rightarrow> Inr max_sessions)"

fun count_loop :: "string \<Rightarrow> json list \<Rightarrow> int \<Rightarrow> error + int" where
  "count_loop date [] max_sessions = Inr max_sessions"
| "count_loop date (student # students) max_sessions =
     ebind (py_get_default student ''attendance'' (JObj [])) (\<lambda>attendance.
     ebind (py_get attendance date) (\<lambda>day_data.
     ebind (day_max max_sessions day_data) (\<lambda>max_sessions'.
       count_loop date students max_sessions')))"

definition count_valid_sessions_for_date :: "json \<Rightarrow> string \<Rightarrow> error + int" where
  "count_valid_sessions_for_date class_data date =
     ebind (py_get_default class_data ''students'' (JList [])) (\<lambda>students.
       if \<not> truthy students then Inr 0
       else ebind (py_iter students) (\<lambda>students. count_loop date students 0))"

section \<open>Starting a session and reading it with rotation\<close>

text \<open>Everything \<^verbatim>\<open>start_qr_session\<close> does before its write: the checks and the new record.\<close>

definition start_prepare ::
  "env \<Rightarrow> store \<Rightarrow> string \<Rightarrow> string \<Rightarrow> string \<Rightarrow> int \<Rightarrow> error + json" where
  "start_prepare env st class_id teacher_id date rotation_interval =
     (let class_data = get_class st class_id in
      if \<not> truthy class_data then Inl (ValueError ''Class not found or unauthorized'')
      else
        ebind (py_get class_data ''teacher_id'') (\<lambda>owner.
          if owner \<noteq> JStr teacher_id then Inl (ValueError ''Class not found or unauthorized'')
          else
            ebind (py_get_default class_data ''enrollment_mode'' (JStr ''manual_entry'')) (\<lambda>enrollment_mode.
              if enrollment_mode \<noteq> JStr ''enrollment_via_id'' then
                Inl (ValueError ''QR attendance is only available for classes with student enrollment via Class ID'')
              else
                ebind (count_valid_sessions_for_date class_data date) (\<lambda>valid_session_count.
                  (let existing_session = get_qr_session st class_id date in
                   ebind (if truthy existing_session then py_get existing_session ''status''
                          else Inr JNull) (\<lambda>status.
                     if truthy existing_session \<and> status = JStr ''active'' then
                       Inl (ValueError ''There is already an active QR session for this date. Please stop it first.'')
                     else
                       (let session_number = valid_session_count + 1 in
                        Inr (JObj
                          [(''class_id'', JStr class_id),
                           (''teacher_id'', JStr teacher_id),
                           (''date'', JStr date),
                           (''session_number'', JInt session_number),
                           (''started_at'', now_iso env),
                           (''rotation_interval'', JInt rotation_interval),
                           (''current_code'', JStr (generate_qr_code env)),
                           (''code_generated_at'', now_iso env),
                           (''scanned_students'', JList []),
                           (''status'', JStr ''active'')]))))))))"

definition start_qr_session ::
  "env \<Rightarrow> store \<Rightarrow> string \<Rightarrow> string \<Rightarrow> string \<Rightarrow> int \<Rightarrow> (error + json) \<times> store" where
  "start_qr_session env st class_id teacher_id date rotation_interval =
     (case start_prepare env st class_id teacher_id date rotation_interval of
        Inl e \<Rightarrow> (Inl e, st)
      | Inr qr_session_data \<Rightarrow>
          (Inr qr_session_data, create_qr_session st class_id date qr_session_data))"

text \<open>
  \<^verbatim>\<open>datetime.fromisoformat(v)\<close>: TypeError unless \<open>v\<close> is a string, ValueError for
  a string that is not an ISO time.
\<close>

definition py_fromisoformat :: "env \<Rightarrow> json \<Rightarrow> error + int" where
  "py_fromisoformat env v =
     (case v of
        JStr s \<Rightarrow> (case fromisoformat env s of
                     None \<Rightarrow> Inl (ValueError ''Invalid isoformat string'')
                   | Some t \<Rightarrow> Inr t)
      | _ \<Rightarrow> Inl TypeError)"

text \<open>
  \<^verbatim>\<open>elapsed >= rotation_interval\<close> with \<open>elapsed\<close> in seconds is compared here in
  microseconds.
\<close>

definition rotate :: "env \<Rightarrow> (string \<times> json) list \<Rightarrow> (string \<times> json) list" where
  "rotate env session_data =
     AList.update ''code_generated_at'' (now_iso env)
       (AList.update ''current_code'' (JStr (generate_qr_code env)) session_data)"

definition get_active_qr_session ::
  "env \<Rightarrow> store \<Rightarrow> string \<Rightarrow> string \<Rightarrow> (error + json) \<times> store" where
  "get_active_qr_session env st class_id date =
     (case get_qr_session st class_id date of
        JObj session_data \<Rightarrow>
          if session_data = [] \<or> dict_get session_data ''status'' JNull \<noteq> JStr ''active'' then (Inr JNull, st)
          else
            (case ebind (dict_index session_data ''code_generated_at'') (\<lambda>generated.
                  ebind (py_fromisoformat env generated) (\<lambda>code_time.
                  ebind (dict_index session_data ''rotation_interval'') (\<lambda>interval.
                    case as_int interval of
                      None \<Rightarrow> Inl TypeError
                    | Some rotation_interval \<Rightarrow>
                        Inr (utcnow env - code_time \<ge> rotation_interval * 1000000)))) of
               Inl e \<Rightarrow> (Inl e, st)
             | Inr due \<Rightarrow>
                 if due then
                   (Inr (JObj (stamp env (rotate env session_data))),
                    update_qr_session env st class_id date (rotate env session_data))
                 else (Inr (JObj session_data), st))
      | session_data \<Rightarrow>
          if \<not> truthy session_data then (Inr JNull, st) else (Inl AttributeError, st))"

section \<open>Writing one mark into a student's record\<close>

text \<open>
  \<^verbatim>\<open>scan_qr_code\<close> and \<^verbatim>\<open>stop_qr_session\<close> carry the same block twice, once
  writing \<^verbatim>\<open>"P"\<close> and once \<^verbatim>\<open>"A"\<close>. The two differ in the mark and in one branch:
  the scan overwrites the status of a session that is already listed
  (\<^verbatim>\<open>elif i == qr_session_number\<close>), the stop has no such branch. Here the block is
  one function of the mark and of that flag.
\<close>

definition session_id :: "nat \<Rightarrow> string" where
  "session_id i = ''session_'' @ str_nat i"

definition new_session :: "nat \<Rightarrow> json \<Rightarrow> json" where
  "new_session i status =
     JObj [(''id'', JStr (session_id i)),
           (''name'', JStr (''QR Session '' @ str_nat i)),
           (''status'', status)]"

text \<open>The list built for a scalar or missing entry, \<^verbatim>\<open>for i in range(1, n + 1)\<close>.\<close>

definition build_sessions :: "json \<Rightarrow> json \<Rightarrow> nat \<Rightarrow> json list" where
  "build_sessions mark current_value n =
     map (\<lambda>i. new_session i
                (if i = 1 \<and> is_str current_value then current_value
                 else if i = n then mark else JStr ''A''))
         [1..<Suc n]"

text \<open>\<^verbatim>\<open>{s.get('id') for s in sessions}\<close>\<close>

fun session_ids :: "json list \<Rightarrow> error + json list" where
  "session_ids [] = Inr []"
| "session_ids (s # ss) =
     ebind (py_get s ''id'') (\<lambda>i.
       if \<not> hashable i then Inl TypeError
       else ebind (session_ids ss) (\<lambda>r. Inr (i # r)))"

text \<open>\<^verbatim>\<open>sessions.insert(k, x)\<close>: past the end it appends.\<close>

definition list_insert :: "nat \<Rightarrow> 'a \<Rightarrow> 'a list \<Rightarrow> 'a list" where
  "list_insert k x xs = take k xs @ x # drop k xs"

text \<open>The inner loop with \<^verbatim>\<open>break\<close>: the first session with that id gets the status.\<close>

fun set_status_first :: "string \<Rightarrow> json \<Rightarrow> json list \<Rightarrow> json list" where
  "set_status_first sid v [] = []"
| "set_status_first sid v (JObj d # ss) =
     (if dict_get d ''id'' JNull = JStr sid then JObj (AList.update ''status'' v d) # ss
      else JObj d # set_status_first sid v ss)"
| "set_status_first sid v (s # ss) = s # set_status_first sid v ss"

text \<open>
  The loop over an existing list. \<open>existing_ids\<close> is computed once, before the loop,
  and not updated by the insertions.
\<close>

fun fill_sessions ::
  "json \<Rightarrow> bool \<Rightarrow> json list \<Rightarrow> nat \<Rightarrow> nat list \<Rightarrow> json list \<Rightarrow> json list" where
  "fill_sessions mark overwrite existing_ids n [] sessions = sessions"
| "fill_sessions mark overwrite existing_ids n (i # is) sessions =
     fill_sessions mark overwrite existing_ids n is
       (if JStr (session_id i) \<notin> set existing_ids then
          list_insert (i - 1) (new_session i (if i = n then mark else JStr ''A'')) sessions
        else if overwrite \<and> i = n then set_status_first (session_id i) mark sessions
        else sessions)"

definition fill_structured :: "json \<Rightarrow> bool \<Rightarrow> json \<Rightarrow> json \<Rightarrow> error + json" where
  "fill_structured mark overwrite qr_session_number sessions =
     ebind (py_iter sessions) (\<lambda>elems.
     ebind (session_ids elems) (\<lambda>existing_ids.
       case as_int qr_session_number of
         None \<Rightarrow> Inl TypeError
       | Some n \<Rightarrow>
           (case sessions of
              JList xs \<Rightarrow>
                Inr (JList (fill_sessions mark overwrite existing_ids (nat n) [1..<Suc (nat n)] xs))
            | _ \<Rightarrow> if 1 \<le> n then Inl AttributeError else Inr sessions)))"

text \<open>
  The new value of \<^verbatim>\<open>attendance[date]\<close>, or \<open>None\<close> when no branch assigns it: an
  entry that is neither a string, nor missing, nor a dict with \<^verbatim>\<open>sessions\<close> is left
  as it is for a session number other than 1.
\<close>

definition mark_entry :: "json \<Rightarrow> bool \<Rightarrow> env \<Rightarrow> json \<Rightarrow> json \<Rightarrow> error + json option" where
  "mark_entry mark overwrite env qr_session_number current_value =
     (if as_int qr_session_number = Some 1 then Inr (Some mark)
      else if is_str current_value \<or> current_value = JNull then
        (case as_int qr_session_number of
           None \<Rightarrow> Inl TypeError
         | Some n \<Rightarrow>
             Inr (Some (JObj [(''sessions'', JList (build_sessions mark current_value (nat n))),
                              (''updated_at'', now_iso env)])))
      else case current_value of
        JObj d \<Rightarrow>
          if has_key d ''sessions'' then
            ebind (fill_structured mark overwrite qr_session_number (dict_get d ''sessions'' (JList [])))
              (\<lambda>sessions. Inr (Some (JObj [(''sessions'', sessions), (''updated_at'', now_iso env)])))
          else Inr None
      | _ \<Rightarrow> Inr None)"

definition mark_student ::
  "json \<Rightarrow> bool \<Rightarrow> env \<Rightarrow> json \<Rightarrow> string \<Rightarrow> (string \<times> json) list \<Rightarrow> error + json" where
  "mark_student mark overwrite env qr_session_number date student =
     (let student1 = (if has_key student ''attendance'' then student
                      else AList.update ''attendance'' (JObj []) student)
      in case dict_get student1 ''attendance'' JNull of
           JObj attendance \<Rightarrow>
             ebind (mark_entry mark overwrite env qr_session_number (dict_get attendance date JNull))
               (\<lambda>r. case r of
                  None \<Rightarrow> Inr (JObj student1)
                | Some v \<Rightarrow>
                    Inr (JObj (AList.update ''attendance'' (JObj (AList.update date v attendance)) student1)))
         | _ \<Rightarrow> Inl AttributeError)"

section \<open>Scanning a code\<close>

text \<open>The \<^verbatim>\<open>try\<close> block with its bare \<^verbatim>\<open>except\<close>: the value compared with the code.\<close>

definition extract_code :: "env \<Rightarrow> string \<Rightarrow> json" where
  "extract_code env qr_code =
     (case json_loads env qr_code of
        None \<Rightarrow> JStr qr_code
      | Some qr_data \<Rightarrow>
          (case py_get qr_data ''code'' of
             Inl e \<Rightarrow> JStr qr_code
           | Inr qr_code_value \<Rightarrow> qr_code_value))"

fun find_enrollment :: "string \<Rightarrow> json list \<Rightarrow> error + json" where
  "find_enrollment student_id [] = Inr JNull"
| "find_enrollment student_id (e # es) =
     ebind (py_get e ''student_id'') (\<lambda>sid.
       if sid = JStr student_id then
         ebind (py_get e ''status'') (\<lambda>status.
           if status = JStr ''active'' then Inr e else find_enrollment student_id es)
       else find_enrollment student_id es)"

text \<open>
  The search for the student record (first match, then \<^verbatim>\<open>break\<close>) together with
  the update of the record found, which the source does in place.
\<close>

fun mark_first ::
  "json \<Rightarrow> ((string \<times> json) list \<Rightarrow> error + json) \<Rightarrow> json list \<Rightarrow> error + json list" where
  "mark_first student_record_id f [] = Inl (ValueError ''Student record not found'')"
| "mark_first student_record_id f (JObj s # ss) =
     (if dict_get s ''id'' JNull = student_record_id then
        (if s = [] then Inl (ValueError ''Student record not found'')
         else ebind (f s) (\<lambda>s'. Inr (s' # ss)))
      else ebind (mark_first student_record_id f ss) (\<lambda>ss'. Inr (JObj s # ss')))"
| "mark_first student_record_id f (s # ss) = Inl AttributeError"

text \<open>Python's \<^verbatim>\<open>t in s\<close> on two strings.\<close>

fun str_contains :: "string \<Rightarrow> string \<Rightarrow> bool" where
  "str_contains [] t = (t = [])"
| "str_contains (c # cs) t = (take (length t) (c # cs) = t \<or> str_contains cs t)"

text \<open>
  \<^verbatim>\<open>if student_record_id not in scanned: scanned.append(student_record_id)\<close>.
  Only a list has \<^verbatim>\<open>append\<close>.
\<close>

fun record_scan :: "json \<Rightarrow> json \<Rightarrow> error + json" where
  "record_scan (JList xs) rid = Inr (JList (if rid \<in> set xs then xs else xs @ [rid]))"
| "record_scan (JStr s) rid =
     (case rid of
        JStr t \<Rightarrow> if str_contains s t then Inr (JStr s) else Inl AttributeError
      | _ \<Rightarrow> Inl TypeError)"
| "record_scan (JObj d) rid =
     (if \<not> hashable rid then Inl TypeError
      else case rid of
        JStr k \<Rightarrow> if has_key d k then Inr (JObj d) else Inl AttributeError
      | _ \<Rightarrow> Inl AttributeError)"
| "record_scan v rid = Inl TypeError"

text \<open>
  Everything \<^verbatim>\<open>scan_qr_code\<close> does before its first write: the checks, and the
  class record with the student's mark set.
\<close>

definition scan_prepare ::
  "env \<Rightarrow> store \<Rightarrow> string \<Rightarrow> string \<Rightarrow> string \<Rightarrow> string \<Rightarrow>
   error + ((string \<times> json) list \<times> (string \<times> json) list \<times> json \<times> json)" where
  "scan_prepare env st student_id class_id qr_code date =
     (case get_qr_session st class_id date of
        JObj session_data \<Rightarrow>
          if session_data = [] \<or> dict_get session_data ''status'' JNull \<noteq> JStr ''active'' then
            Inl (ValueError ''No active QR session'')
          else if dict_get session_data ''current_code'' JNull \<noteq> extract_code env qr_code then
            Inl (ValueError ''Invalid or expired QR code'')
          else
            (let qr_session_number = dict_get session_data ''session_number'' (JInt 1) in
             ebind (find_enrollment student_id (get_enrollments st class_id)) (\<lambda>enrollment.
               if \<not> truthy enrollment then
                 Inl (ValueError ''Student not actively enrolled in this class'')
               else
                 ebind (py_get enrollment ''student_record_id'') (\<lambda>student_record_id.
                   case get_class st class_id of
                     JObj class_data \<Rightarrow>
                       ebind (py_iter (dict_get class_data ''students'' (JList []))) (\<lambda>students.
                       ebind (mark_first student_record_id
                                (mark_student (JStr ''P'') True env qr_session_number date) students)
                         (\<lambda>students'.
                            Inr (AList.update ''students'' (JList students') class_data,
                                 session_data, student_record_id, qr_session_number)))
                   | class_data \<Rightarrow>
                       if \<not> truthy class_data then Inl (ValueError ''Class not found'')
                       else Inl AttributeError)))
      | session_data \<Rightarrow>
          if \<not> truthy session_data then Inl (ValueError ''No active QR session'')
          else Inl AttributeError)"

text \<open>The returned dict, without its human-readable \<^verbatim>\<open>message\<close>.\<close>

definition scan_result :: "json \<Rightarrow> string \<Rightarrow> json" where
  "scan_result qr_session_number date =
     JObj [(''success'', JBool True),
           (''scan_count'', qr_session_number),
           (''session_number'', qr_session_number),
           (''date'', JStr date)]"

definition scan_qr_code ::
  "env \<Rightarrow> store \<Rightarrow> string \<Rightarrow> string \<Rightarrow> string \<Rightarrow> string \<Rightarrow> (error + json) \<times> store" where
  "scan_qr_code env st student_id class_id qr_code date =
     (case scan_prepare env st student_id class_id qr_code date of
        Inl e \<Rightarrow> (Inl e, st)
      | Inr (class_data, session_data, student_record_id, qr_session_number) \<Rightarrow>
          (case update_class env st class_id class_data of
             Inl e \<Rightarrow> (Inl e, st)
           | Inr st1 \<Rightarrow>
               (case record_scan (dict_get session_data ''scanned_students'' (JList [])) student_record_id of
                  Inl e \<Rightarrow> (Inl e, st1)
                | Inr scanned \<Rightarrow>
                    (Inr (scan_result qr_session_number date),
                     update_qr_session env st1 class_id date
                       (AList.update ''last_scan_at'' (now_iso env)
                          (AList.update ''scanned_students'' scanned session_data))))))"

section \<open>Stopping a session\<close>

text \<open>The set comprehension over the enrollments with status \<^verbatim>\<open>active\<close>.\<close>

fun active_student_ids :: "json list \<Rightarrow> error + json list" where
  "active_student_ids [] = Inr []"
| "active_student_ids (e # es) =
     ebind (py_get e ''status'') (\<lambda>status.
       if status = JStr ''active'' then
         ebind (py_get e ''student_record_id'') (\<lambda>rid.
           if \<not> hashable rid then Inl TypeError
           else ebind (active_student_ids es) (\<lambda>r. Inr (rid # r)))
       else active_student_ids es)"

text \<open>The sweep: the students after it, and \<^verbatim>\<open>marked_absent\<close>.\<close>

fun absent_loop ::
  "env \<Rightarrow> json \<Rightarrow> string \<Rightarrow> json list \<Rightarrow> json list \<Rightarrow> json list \<Rightarrow> error + (json list \<times> nat)" where
  "absent_loop env qn date active scanned [] = Inr ([], 0)"
| "absent_loop env qn date active scanned (JObj student # students) =
     (let student_record_id = dict_get student ''id'' JNull in
      if \<not> hashable student_record_id then Inl TypeError
      else
        ebind (if student_record_id \<in> set active \<and> student_record_id \<notin> set scanned then
                 ebind (mark_student (JStr ''A'') False env qn date student) (\<lambda>s'. Inr (s', 1))
               else Inr (JObj student, 0))
          (\<lambda>(s', k).
             ebind (absent_loop env qn date active scanned students)
               (\<lambda>(ss', m). Inr (s' # ss', k + m))))"
| "absent_loop env qn date active scanned (s # students) = Inl AttributeError"

definition stop_result :: "json list \<Rightarrow> nat \<Rightarrow> string \<Rightarrow> json \<Rightarrow> json" where
  "stop_result scanned marked_absent date qr_session_number =
     JObj [(''success'', JBool True),
           (''scanned_count'', JInt (int (card (set scanned)))),
           (''absent_count'', JInt (int marked_absent)),
           (''date'', JStr date),
           (''session_number'', qr_session_number)]"

definition stop_prepare ::
  "env \<Rightarrow> store \<Rightarrow> string \<Rightarrow> string \<Rightarrow> string \<Rightarrow>
   error + ((string \<times> json) list \<times> (string \<times> json) list \<times> json)" where
  "stop_prepare env st class_id teacher_id date =
     (case get_qr_session st class_id date of
        JObj session_data \<Rightarrow>
          if session_data = [] \<or> dict_get session_data ''status'' JNull \<noteq> JStr ''active'' then
            Inl (ValueError ''No active session'')
          else if dict_get session_data ''teacher_id'' JNull \<noteq> JStr teacher_id then
            Inl (ValueError ''Unauthorized'')
          else
            (let qr_session_number = dict_get session_data ''session_number'' (JInt 1) in
             ebind (py_iter (dict_get session_data ''scanned_students'' (JList []))) (\<lambda>scanned.
               if \<not> list_all hashable scanned then Inl TypeError
               else
                 ebind (active_student_ids (get_enrollments st class_id)) (\<lambda>active.
                   case get_class st class_id of
                     JObj class_data \<Rightarrow>
                       ebind (py_iter (dict_get class_data ''students'' (JList []))) (\<lambda>students.
                       ebind (absent_loop env qr_session_number date active scanned students)
                         (\<lambda>(students', marked_absent).
                            Inr (case map_of class_data ''students'' of
                                   Some (JList xs) \<Rightarrow> AList.update ''students'' (JList students') class_data
                                 | _ \<Rightarrow> class_data,
                                 session_data,
                                 stop_result scanned marked_absent date qr_session_number)))
                   | class_data \<Rightarrow> Inl AttributeError)))
      | session_data \<Rightarrow>
          if \<not> truthy session_data then Inl (ValueError ''No active session'')
          else Inl AttributeError)"

definition stop_qr_session ::
  "env \<Rightarrow> store \<Rightarrow> string \<Rightarrow> string \<Rightarrow> string \<Rightarrow> (error + json) \<times> store" where
  "stop_qr_session env st class_id teacher_id date =
     (case stop_prepare env st class_id teacher_id date of
        Inl e \<Rightarrow> (Inl e, st)
      | Inr (class_data, session_data, result) \<Rightarrow>
          (case update_class env st class_id class_data of
             Inl e \<Rightarrow> (Inl e, st)
           | Inr st1 \<Rightarrow>
               (Inr result,
                update_qr_session env st1 class_id date
                  (AList.update ''stopped_at'' (now_iso env)
                     (AList.update ''status'' (JStr ''stopped'') session_data)))))"

section \<open>Notions used to state the properties\<close>

text \<open>
  The attendance entry of a student for a date, and the students of a class, read
  the way \<^verbatim>\<open>_count_valid_sessions_for_date\<close> reads them.
\<close>

definition student_day :: "string \<Rightarrow> json \<Rightarrow> json" where
  "student_day date student =
     (case student of
        JObj s \<Rightarrow> (case dict_get s ''attendance'' (JObj []) of
                     JObj attendance \<Rightarrow> dict_get attendance date JNull
                   | _ \<Rightarrow> JNull)
      | _ \<Rightarrow> JNull)"

definition class_students :: "json \<Rightarrow> json list" where
  "class_students class_data =
     (case class_data of
        JObj d \<Rightarrow> (case dict_get d ''students'' (JList []) of JList students \<Rightarrow> students | _ \<Rightarrow> [])
      | _ \<Rightarrow> [])"

text \<open>
  What one entry counts, in the words of the specification of \<open>countValidSessions\<close>
  (as amended for claim C5): nothing for a missing or falsy entry; for an object
  with \<^verbatim>\<open>sessions\<close> the number of marks whose status is not null; for an object
  with a non-null \<^verbatim>\<open>status\<close> its \<^verbatim>\<open>count\<close>, 1 when it has none; 1 for a non-empty
  string.
\<close>

definition entry_count :: "json \<Rightarrow> int" where
  "entry_count day_data =
     (if \<not> truthy day_data then 0
      else case day_data of
        JObj d \<Rightarrow>
          if has_key d ''sessions'' then
            (case dict_get d ''sessions'' JNull of
               JList sessions \<Rightarrow> int (length (filter (\<lambda>s. py_get s ''status'' \<noteq> Inr JNull) sessions))
             | _ \<Rightarrow> 0)
          else if has_key d ''status'' \<and> dict_get d ''status'' JNull \<noteq> JNull then
            (case as_int (dict_get d ''count'' (JInt 1)) of Some count \<Rightarrow> count | None \<Rightarrow> 0)
          else 0
      | JStr s \<Rightarrow> 1
      | _ \<Rightarrow> 0)"

text \<open>The session record keeps its scanned students in a list (or has none yet).\<close>

definition scanned_is_list :: "json \<Rightarrow> bool" where
  "scanned_is_list session_data =
     (case session_data of
        JObj d \<Rightarrow> (case dict_get d ''scanned_students'' (JList []) of JList xs \<Rightarrow> True | _ \<Rightarrow> False)
      | _ \<Rightarrow> True)"

text \<open>A field of the value a call returned.\<close>

definition returned_field :: "(error + json) \<times> store \<Rightarrow> string \<Rightarrow> error + json" where
  "returned_field r k = (case fst r of Inl e \<Rightarrow> Inl e | Inr v \<Rightarrow> py_get v k)"

text \<open>Reading a decimal numeral back, to tell the session identifiers apart.\<close>

definition digit_val :: "char \<Rightarrow> nat" where
  "digit_val c = length (takeWhile (\<lambda>d. d \<noteq> c) ''0123456789'')"

definition nat_of_str :: "string \<Rightarrow> nat" where
  "nat_of_str s = foldl (\<lambda>acc c. 10 * acc + digit_val c) 0 s"

text \<open>
  An entry is structured when it is an object with a \<^verbatim>\<open>sessions\<close> field, the test
  the code itself makes. The identifier of a record, the records a stop sweeps
  (actively enrolled and not scanned).
\<close>

definition structured :: "json \<Rightarrow> bool" where
  "structured v = (case v of JObj d \<Rightarrow> has_key d ''sessions'' | _ \<Rightarrow> False)"

definition record_id :: "json \<Rightarrow> json" where
  "record_id student = (case student of JObj s \<Rightarrow> dict_get s ''id'' JNull | _ \<Rightarrow> JNull)"

definition touched :: "json list \<Rightarrow> json list \<Rightarrow> json \<Rightarrow> bool" where
  "touched active scanned student = (record_id student \<in> set active \<and> record_id student \<notin> set scanned)"

text \<open>
  What the operations read from the store: the record identifier of the scanning
  student's active enrollment, the identifiers of the active enrollments, the
  scanned students and the number of the session.
\<close>

definition scan_target :: "store \<Rightarrow> string \<Rightarrow> string \<Rightarrow> json" where
  "scan_target st class_id student_id =
     (case find_enrollment student_id (get_enrollments st class_id) of
        Inr enrollment \<Rightarrow> (case py_get enrollment ''student_record_id'' of
                            Inr rid \<Rightarrow> rid | Inl e \<Rightarrow> JNull)
      | Inl e \<Rightarrow> JNull)"

definition sweep_active :: "store \<Rightarrow> string \<Rightarrow> json list" where
  "sweep_active st class_id =
     (case active_student_ids (get_enrollments st class_id) of Inr ids \<Rightarrow> ids | Inl e \<Rightarrow> [])"

definition session_scanned :: "store \<Rightarrow> string \<Rightarrow> string \<Rightarrow> json list" where
  "session_scanned st class_id date =
     (case get_qr_session st class_id date of
        JObj sd \<Rightarrow> (case py_iter (dict_get sd ''scanned_students'' (JList [])) of
                      Inr xs \<Rightarrow> xs | Inl e \<Rightarrow> [])
      | _ \<Rightarrow> [])"

definition session_number_of :: "store \<Rightarrow> string \<Rightarrow> string \<Rightarrow> json" where
  "session_number_of st class_id date =
     (case get_qr_session st class_id date of
        JObj sd \<Rightarrow> dict_get sd ''session_number'' (JInt 1)
      | _ \<Rightarrow> JInt 1)"

text \<open>
  A record \<open>s\<close> that a scan or a stop of session \<open>n\<close> on \<open>date\<close> turned into \<open>s'\<close>
  never reverts: a record the operation does not mark is left as it is, the entries
  of other dates are left as they are, a structured entry of the date stays
  structured unless the session is number 1, and in session 1 a record that changed
  has the scalar mark as its entry.
\<close>

definition never_reverts ::
  "json \<Rightarrow> string \<Rightarrow> json \<Rightarrow> (json \<Rightarrow> bool) \<Rightarrow> json \<Rightarrow> json \<Rightarrow> bool" where
  "never_reverts n date mark marked s s' =
     ((\<not> marked s \<longrightarrow> s' = s)
      \<and> (\<forall>date'. date' \<noteq> date \<longrightarrow> student_day date' s' = student_day date' s)
      \<and> (as_int n \<noteq> Some 1 \<longrightarrow> structured (student_day date s) \<longrightarrow>
            structured (student_day date s'))
      \<and> (as_int n = Some 1 \<longrightarrow> s' = s \<or> student_day date s' = mark))"

text \<open>
  The mark an entry holds for session \<open>n\<close>: the scalar itself for session 1, and for
  a structured entry the status of the first listed session whose identifier is
  \<^verbatim>\<open>session_n\<close>. An entry lacks session \<open>n\<close> when it is missing, a string, or a
  structured entry whose list has no such session.
\<close>

definition session_status :: "nat \<Rightarrow> json list \<Rightarrow> json" where
  "session_status n sessions =
     (case find (\<lambda>s. record_id s = JStr (session_id n)) sessions of
        Some (JObj d) \<Rightarrow> dict_get d ''status'' JNull
      | _ \<Rightarrow> JNull)"

definition session_mark :: "nat \<Rightarrow> json \<Rightarrow> json" where
  "session_mark n entry =
     (case entry of
        JStr s \<Rightarrow> if n = 1 then JStr s else JNull
      | JObj d \<Rightarrow> (case dict_get d ''sessions'' JNull of
                     JList sessions \<Rightarrow> session_status n sessions
                   | _ \<Rightarrow> JNull)
      | _ \<Rightarrow> JNull)"

definition lacks_session :: "nat \<Rightarrow> json \<Rightarrow> bool" where
  "lacks_session n entry =
     (case entry of
        JNull \<Rightarrow> True
      | JStr s \<Rightarrow> True
      | JObj d \<Rightarrow> (case map_of d ''sessions'' of
                     Some (JList sessions) \<Rightarrow> JStr (session_id n) \<notin> record_id ` set sessions
                   | _ \<Rightarrow> False)
      | _ \<Rightarrow> False)"

text \<open>
  What a stop of session \<open>n\<close> does to a record: a record it does not mark is left
  as it is; a marked record keeps its identifier, holds the scalar \<^verbatim>\<open>"A"\<close> when
  the session is number 1, and holds \<^verbatim>\<open>"A"\<close> for session \<open>n\<close> when its entry
  lacked that session.
\<close>

definition swept :: "nat \<Rightarrow> string \<Rightarrow> (json \<Rightarrow> bool) \<Rightarrow> json \<Rightarrow> json \<Rightarrow> bool" where
  "swept n date marked x x' =
     (if marked x then
        record_id x' = record_id x
        \<and> (lacks_session n (student_day date x) \<longrightarrow>
              session_mark n (student_day date x') = JStr ''A'')
        \<and> (n = 1 \<longrightarrow> student_day date x' = JStr ''A'')
      else x' = x)"

section \<open>Example data\<close>

text \<open>
  One class \<^verbatim>\<open>c1\<close> of teacher \<^verbatim>\<open>t1\<close> with three actively enrolled students, and the
  library functions on the few arguments the examples give them.
\<close>

definition ex_isoformat :: "int \<Rightarrow> string" where
  "ex_isoformat t =
     (if t = 0 then ''1970-01-01T00:00:00''
      else if t = 4000000 then ''1970-01-01T00:00:04''
      else if t = 6000000 then ''1970-01-01T00:00:06''
      else ''1970-01-01T00:01:00'')"

definition ex_fromisoformat :: "string \<Rightarrow> int option" where
  "ex_fromisoformat s =
     (if s = ''1970-01-01T00:00:00'' then Some 0
      else if s = ''1970-01-01T00:00:04'' then Some 4000000
      else if s = ''1970-01-01T00:00:06'' then Some 6000000
      else if s = ''1970-01-01T00:01:00'' then Some 60000000
      else None)"

definition ex_loads :: "string \<Rightarrow> json option" where
  "ex_loads s =
     (if s = ''{}'' then Some (JObj [])
      else if s = ''[]'' then Some (JList [])
      else None)"

definition ex_env :: "int \<Rightarrow> string \<Rightarrow> env" where
  "ex_env t code =
     \<lparr>utcnow = t, isoformat = ex_isoformat, fromisoformat = ex_fromisoformat,
      json_loads = ex_loads, random_choices = (\<lambda>alphabet k. code)\<rparr>"

definition ex_student :: "string \<Rightarrow> (string \<times> json) list \<Rightarrow> json" where
  "ex_student rid attendance = JObj [(''id'', JStr rid), (''attendance'', JObj attendance)]"

definition ex_enrollment :: "string \<Rightarrow> string \<Rightarrow> json" where
  "ex_enrollment student_id rid =
     JObj [(''student_id'', JStr student_id), (''student_record_id'', JStr rid),
           (''status'', JStr ''active'')]"

definition ex_class :: "json list \<Rightarrow> json" where
  "ex_class students =
     JObj [(''teacher_id'', JStr ''t1''), (''enrollment_mode'', JStr ''enrollment_via_id''),
           (''students'', JList students)]"

definition ex_session :: "int \<Rightarrow> string \<Rightarrow> json list \<Rightarrow> (string \<times> json) list" where
  "ex_session n code scanned =
     [(''class_id'', JStr ''c1''), (''teacher_id'', JStr ''t1''), (''date'', JStr ''d1''),
      (''session_number'', JInt n), (''started_at'', JStr ''1970-01-01T00:00:00''),
      (''rotation_interval'', JInt 5), (''current_code'', JStr code),
      (''code_generated_at'', JStr ''1970-01-01T00:00:00''),
      (''scanned_students'', JList scanned), (''status'', JStr ''active'')]"

definition ex_store :: "json list \<Rightarrow> json option \<Rightarrow> store" where
  "ex_store students session =
     \<lparr>classes = [''c1'' \<mapsto> ex_class students],
      enrollments = (\<lambda>c. if c = ''c1'' then [ex_enrollment ''s1'' ''r1'', ex_enrollment ''s2'' ''r2'',
                                              ex_enrollment ''s3'' ''r3''] else []),
      qr_sessions = (\<lambda>k. if k = (''c1'', ''d1'') then session else None)\<rparr>"

definition ex_null_entry :: json where
  "ex_null_entry =
     JObj [(''sessions'', JList [JObj [(''id'', JStr ''session_1''), (''name'', JStr ''QR Session 1''),
                                       (''status'', JNull)]])]"

definition ex_first_entry :: json where
  "ex_first_entry =
     JObj [(''sessions'', JList [JObj [(''id'', JStr ''session_1''), (''name'', JStr ''QR Session 1''),
                                       (''status'', JStr ''P'')]])]"

definition ex_second_null :: json where
  "ex_second_null =
     JObj [(''sessions'', JList [JObj [(''id'', JStr ''session_1''), (''name'', JStr ''QR Session 1''),
                                       (''status'', JStr ''P'')],
                                 JObj [(''id'', JStr ''session_2''), (''name'', JStr ''QR Session 2''),
                                       (''status'', JNull)]])]"

definition ex_status_entry :: json where
  "ex_status_entry = JObj [(''status'', JStr ''P''), (''count'', JInt 1)]"

section \<open>Auxiliary facts\<close>

lemma ebind_Inr_iff: "ebind m f = Inr y \<longleftrightarrow> (\<exists>x. m = Inr x \<and> f x = Inr y)"
  by (cases m) auto

lemma ebind_Inl_iff: "ebind m f = Inl e \<longleftrightarrow> m = Inl e \<or> (\<exists>x. m = Inr x \<and> f x = Inl e)"
  by (cases m) auto

lemma extract_code_cases:
  "extract_code env qr_code =
     (case json_loads env qr_code of
        Some (JObj d) \<Rightarrow> dict_get d ''code'' JNull
      | _ \<Rightarrow> JStr qr_code)"
  by (simp add: extract_code_def py_get_def split: option.splits json.splits)

lemma find_enrollment_err: "find_enrollment sid es = Inl e \<Longrightarrow> e = AttributeError"
proof (induction es)
  case Nil then show ?case by simp
next
  case (Cons a es)
  then show ?case
    by (cases a) (auto simp: py_get_def split: if_splits)
qed

lemma session_ids_err: "session_ids ss = Inl e \<Longrightarrow> e = AttributeError \<or> e = TypeError"
proof (induction ss arbitrary: e)
  case Nil then show ?case by simp
next
  case (Cons a ss)
  then show ?case
    by (cases a) (auto simp: py_get_def ebind_Inl_iff split: if_splits)
qed

lemma py_iter_err: "py_iter v = Inl e \<Longrightarrow> e = TypeError"
  by (cases v) auto

lemma fill_structured_err:
  assumes "fill_structured m ow qn v = Inl e"
  shows "e = AttributeError \<or> e = TypeError"
proof (cases "py_iter v")
  case (Inl a)
  with assms show ?thesis by (auto simp: fill_structured_def dest: py_iter_err)
next
  case (Inr elems)
  show ?thesis
  proof (cases "session_ids elems")
    case (Inl a)
    with Inr assms show ?thesis by (auto simp: fill_structured_def dest: session_ids_err)
  next
    case ids: (Inr ids)
    with Inr assms show ?thesis
      by (cases "as_int qn"; cases v) (auto simp: fill_structured_def split: if_splits)
  qed
qed

lemma mark_entry_err:
  "mark_entry m ow env qn cur = Inl e \<Longrightarrow> e = AttributeError \<or> e = TypeError"
  by (auto simp: mark_entry_def ebind_Inl_iff dest: fill_structured_err
           split: option.splits json.splits if_splits)

lemma mark_student_err:
  "mark_student m ow env qn date s = Inl e \<Longrightarrow> e = AttributeError \<or> e = TypeError"
  by (auto simp: mark_student_def Let_def ebind_Inl_iff dest: mark_entry_err
           split: option.splits json.splits if_splits)

lemma mark_first_err:
  "mark_first rid (mark_student m ow env qn date) ss = Inl e \<Longrightarrow>
     e = AttributeError \<or> e = TypeError \<or> e = ValueError ''Student record not found''"
proof (induction ss arbitrary: e)
  case Nil then show ?case by simp
next
  case (Cons a ss)
  then show ?case
    by (cases a) (auto simp: ebind_Inl_iff dest: mark_student_err split: if_splits)
qed

lemma update_class_err:
  "update_class env st c cd = Inl e \<Longrightarrow> e = AttributeError \<or> e = TypeError"
  by (auto simp: update_class_def Let_def ebind_Inl_iff py_get_def split: if_splits
           elim!: py_get_default.elims)

lemma record_scan_err:
  "record_scan v rid = Inl e \<Longrightarrow> e = AttributeError \<or> e = TypeError"
  by (cases v; cases rid) (auto split: if_splits)

lemma scan_class_err:
  assumes "(case get_class st class_id of
              JObj class_data \<Rightarrow>
                ebind (py_iter (dict_get class_data ''students'' (JList []))) (\<lambda>students.
                ebind (mark_first rid (mark_student m ow env qn date) students)
                  (\<lambda>students'. Inr (g class_data students')))
            | class_data \<Rightarrow>
                if \<not> truthy class_data then Inl (ValueError ''Class not found'')
                else Inl AttributeError) = Inl e"
  shows "e = AttributeError \<or> e = TypeError \<or> e = ValueError ''Student record not found''
         \<or> e = ValueError ''Class not found''"
proof (cases "get_class st class_id")
  case (JObj cd)
  with assms have "py_iter (dict_get cd ''students'' (JList [])) = Inl e
      \<or> (\<exists>xs. mark_first rid (mark_student m ow env qn date) xs = Inl e)"
    by (auto simp: ebind_Inl_iff)
  then show ?thesis
    using py_iter_err mark_first_err by blast
qed (use assms in \<open>auto split: if_splits\<close>)

lemma scan_prepare_active:
  assumes "get_qr_session st class_id date = JObj session_data"
      and "session_data \<noteq> []"
      and "dict_get session_data ''status'' JNull = JStr ''active''"
      and "dict_get session_data ''current_code'' JNull = extract_code env qr_code"
  shows "scan_prepare env st student_id class_id qr_code date =
     ebind (find_enrollment student_id (get_enrollments st class_id)) (\<lambda>enrollment.
               if \<not> truthy enrollment then
                 Inl (ValueError ''Student not actively enrolled in this class'')
               else
                 ebind (py_get enrollment ''student_record_id'') (\<lambda>student_record_id.
                   case get_class st class_id of
                     JObj class_data \<Rightarrow>
                       ebind (py_iter (dict_get class_data ''students'' (JList []))) (\<lambda>students.
                       ebind (mark_first student_record_id
                                (mark_student (JStr ''P'') True env
                                   (dict_get session_data ''session_number'' (JInt 1)) date) students)
                         (\<lambda>students'.
                            Inr (AList.update ''students'' (JList students') class_data,
                                 session_data, student_record_id,
                                 dict_get session_data ''session_number'' (JInt 1))))
                   | class_data \<Rightarrow>
                       if \<not> truthy class_data then Inl (ValueError ''Class not found'')
                       else Inl AttributeError))"
  using assms by (simp add: scan_prepare_def Let_def)


lemma py_get_err: "py_get v k = Inl e \<Longrightarrow> e = AttributeError"
  by (cases v) (auto simp: py_get_def)

lemma scan_prepare_err:
  assumes "scan_prepare env st student_id class_id qr_code date = Inl e"
      and "get_qr_session st class_id date = JObj session_data"
      and "dict_get session_data ''current_code'' JNull = extract_code env qr_code"
  shows "e \<noteq> ValueError ''Invalid or expired QR code''"
proof (cases "session_data = [] \<or> dict_get session_data ''status'' JNull \<noteq> JStr ''active''")
  case True
  with assms(1,2) have "e = ValueError ''No active QR session''"
    by (simp add: scan_prepare_def)
  then show ?thesis by simp
next
  case False
  note eq = scan_prepare_active [OF assms(2) _ _ assms(3)]
  from False have a: "session_data \<noteq> []" "dict_get session_data ''status'' JNull = JStr ''active''"
    by auto
  note E = assms(1) [unfolded eq [OF a]]
  show ?thesis
  proof (cases "find_enrollment student_id (get_enrollments st class_id)")
    case (Inl x)
    with E have "e = x" by simp
    with find_enrollment_err [OF Inl] show ?thesis by simp
  next
    case (Inr enrollment)
    show ?thesis
    proof (cases "truthy enrollment")
      case False
      with E Inr show ?thesis by auto
    next
      case True
      show ?thesis
      proof (cases "py_get enrollment ''student_record_id''")
        case (Inl x)
        with E Inr True have "e = x" by simp
        with py_get_err [OF Inl] show ?thesis by simp
      next
        case rid: (Inr rid)
        from E Inr True rid
        have "e = AttributeError \<or> e = TypeError \<or> e = ValueError ''Student record not found''
              \<or> e = ValueError ''Class not found''"
          by (intro scan_class_err [where rid = rid and m = "JStr ''P''" and ow = True and env = env
                 and qn = "dict_get session_data ''session_number'' (JInt 1)" and date = date
                 and st = st and class_id = class_id
                 and g = "\<lambda>cd ss. (AList.update ''students'' (JList ss) cd, session_data, rid,
                            dict_get session_data ''session_number'' (JInt 1))"]) simp
        then show ?thesis by auto
      qed
    qed
  qed
qed

lemma scan_prepare_Inr:
  assumes "scan_prepare env st student_id class_id qr_code date = Inr (cd', sd, rid, qn)"
  shows "get_qr_session st class_id date = JObj sd \<and> sd \<noteq> []
         \<and> dict_get sd ''status'' JNull = JStr ''active''
         \<and> dict_get sd ''current_code'' JNull = extract_code env qr_code
         \<and> qn = dict_get sd ''session_number'' (JInt 1)
         \<and> (\<exists>enrollment cd students students'.
               find_enrollment student_id (get_enrollments st class_id) = Inr enrollment
               \<and> truthy enrollment
               \<and> py_get enrollment ''student_record_id'' = Inr rid
               \<and> get_class st class_id = JObj cd
               \<and> py_iter (dict_get cd ''students'' (JList [])) = Inr students
               \<and> mark_first rid (mark_student (JStr ''P'') True env qn date) students = Inr students'
               \<and> cd' = AList.update ''students'' (JList students') cd)"
proof (cases "get_qr_session st class_id date")
  case (JObj d)
  show ?thesis
  proof (cases "d = [] \<or> dict_get d ''status'' JNull \<noteq> JStr ''active''")
    case True
    with JObj have "scan_prepare env st student_id class_id qr_code date
                      = Inl (ValueError ''No active QR session'')"
      by (simp add: scan_prepare_def)
    with assms show ?thesis by simp
  next
    case False
    then have a: "d \<noteq> []" "dict_get d ''status'' JNull = JStr ''active''" by auto
    show ?thesis
    proof (cases "dict_get d ''current_code'' JNull = extract_code env qr_code")
      case False
      with JObj a have "scan_prepare env st student_id class_id qr_code date
                      = Inl (ValueError ''Invalid or expired QR code'')"
        by (simp add: scan_prepare_def)
      with assms show ?thesis by simp
    next
      case True
      note E = assms [unfolded scan_prepare_active [OF JObj a True]]
      from E obtain enrollment where
        en: "find_enrollment student_id (get_enrollments st class_id) = Inr enrollment"
        by (cases "find_enrollment student_id (get_enrollments st class_id)") auto
      note E = E [unfolded en ebind.simps]
      from E have tr: "truthy enrollment" by (auto split: if_splits)
      from E tr obtain r where r: "py_get enrollment ''student_record_id'' = Inr r"
        by (cases "py_get enrollment ''student_record_id''") auto
      from E tr r obtain cd where cd: "get_class st class_id = JObj cd"
        by (cases "get_class st class_id") (auto split: if_splits)
      from E tr r cd obtain students where
        ss: "py_iter (dict_get cd ''students'' (JList [])) = Inr students"
        by (cases "py_iter (dict_get cd ''students'' (JList []))") auto
      from E tr r cd ss obtain students' where
        ss': "mark_first r (mark_student (JStr ''P'') True env
                 (dict_get d ''session_number'' (JInt 1)) date) students = Inr students'"
        by (cases "mark_first r (mark_student (JStr ''P'') True env
                 (dict_get d ''session_number'' (JInt 1)) date) students") auto
      from E tr r cd ss ss' have
        "cd' = AList.update ''students'' (JList students') cd" "sd = d" "rid = r"
        "qn = dict_get d ''session_number'' (JInt 1)"
        by auto
      with JObj a True en tr r cd ss ss' show ?thesis by auto
    qed
  qed
qed (use assms in \<open>auto simp: scan_prepare_def split: if_splits\<close>)

lemma scan_prepare_session:
  assumes "scan_prepare env st student_id class_id qr_code date = Inr (cd, sd, rid, qn)"
  shows "get_qr_session st class_id date = JObj sd"
  using scan_prepare_Inr [OF assms] by simp


lemmas ex_defs = ex_isoformat_def ex_fromisoformat_def ex_loads_def ex_env_def ex_student_def
  ex_enrollment_def ex_class_def ex_session_def ex_store_def

lemmas store_defs = get_class_def get_qr_session_def get_enrollments_def create_qr_session_def
  update_qr_session_def update_class_def stamp_def now_iso_def generate_qr_code_def

lemmas py_defs = has_key_def dict_get_def py_get_def dict_index_def

section \<open>Facts about the marking of a record\<close>

lemma digit_val_nth: "d < 10 \<Longrightarrow> digit_val (''0123456789'' ! d) = d"
proof -
  assume "d < 10"
  then have "d = 0 \<or> d = 1 \<or> d = 2 \<or> d = 3 \<or> d = 4 \<or> d = 5 \<or> d = 6 \<or> d = 7
    \<or> d = 8 \<or> d = 9" by arith
  then show ?thesis by (elim disjE) (simp_all add: digit_val_def)
qed

lemma nat_of_str_snoc: "nat_of_str (s @ [c]) = 10 * nat_of_str s + digit_val c"
  by (simp add: nat_of_str_def)

lemma nat_of_str_nat: "nat_of_str (str_nat n) = n"
proof (induction n rule: str_nat.induct)
  case (1 n)
  show ?case
  proof (cases "n < 10")
    case True
    then show ?thesis
      by (subst str_nat.simps) (simp add: nat_of_str_def digit_val_nth)
  next
    case False
    with 1 have "nat_of_str (str_nat (n div 10)) = n div 10" by simp
    with False show ?thesis
      by (subst str_nat.simps) (simp add: nat_of_str_snoc digit_val_nth)
  qed
qed

lemma str_nat_inj: "str_nat i = str_nat j \<Longrightarrow> i = j"
  by (metis nat_of_str_nat)

lemma session_id_inj [simp]: "session_id i = session_id j \<longleftrightarrow> i = j"
  by (auto simp: session_id_def dest: str_nat_inj)

lemma fill_sessions_append:
  "fill_sessions mark ow ids n (is @ js) xs
     = fill_sessions mark ow ids n js (fill_sessions mark ow ids n is xs)"
  by (induction "is" arbitrary: xs) simp_all

lemma fill_sessions_known:
  "(\<And>i. i \<in> set is \<Longrightarrow> JStr (session_id i) \<in> set ids) \<Longrightarrow> n \<notin> set is \<Longrightarrow>
     fill_sessions mark ow ids n is xs = xs"
  by (induction "is" arbitrary: xs) auto

lemma fill_sessions_new:
  "(\<And>i. a \<le> i \<Longrightarrow> i < b \<Longrightarrow> JStr (session_id i) \<notin> set ids) \<Longrightarrow> length xs = a - 1 \<Longrightarrow> 1 \<le> a \<Longrightarrow>
     fill_sessions mark ow ids n [a..<b] xs
       = xs @ map (\<lambda>i. new_session i (if i = n then mark else JStr ''A'')) [a..<b]"
proof (induction b)
  case 0
  then show ?case by simp
next
  case (Suc b)
  show ?case
  proof (cases "a \<le> b")
    case True
    then have u: "[a..<Suc b] = [a..<b] @ [b]" by simp
    from Suc True have IH: "fill_sessions mark ow ids n [a..<b] xs
       = xs @ map (\<lambda>i. new_session i (if i = n then mark else JStr ''A'')) [a..<b]"
      by simp
    from Suc.prems True have nb: "JStr (session_id b) \<notin> set ids" by simp
    with True Suc.prems show ?thesis
      unfolding u fill_sessions_append IH
      by (simp add: list_insert_def)
  next
    case False
    then show ?thesis by simp
  qed
qed

lemma dict_get_update:
  "dict_get (AList.update k v d) k' dflt = (if k' = k then v else dict_get d k' dflt)"
  by (simp add: dict_get_def update_conv')

lemma has_key_update: "has_key (AList.update k v d) k' = (k' = k \<or> has_key d k')"
  by (simp add: has_key_def update_conv')

lemma dict_get_has_key: "has_key d k \<Longrightarrow> dict_get d k dflt = dict_get d k dflt'"
  by (auto simp: has_key_def dict_get_def)

lemma dict_get_no_key: "\<not> has_key d k \<Longrightarrow> dict_get d k dflt = dflt"
  by (auto simp: has_key_def dict_get_def)

lemma mark_student_Inr:
  assumes "mark_student m ow env qn date s = Inr s'"
  shows "\<exists>r. mark_entry m ow env qn (student_day date (JObj s)) = Inr r
           \<and> (\<forall>date'. student_day date' s' =
                 (case r of Some v \<Rightarrow> if date' = date then v else student_day date' (JObj s)
                          | None \<Rightarrow> student_day date' (JObj s)))
           \<and> record_id s' = record_id (JObj s)"
proof -
  let ?s1 = "if has_key s ''attendance'' then s else AList.update ''attendance'' (JObj []) s"
  have a1: "dict_get ?s1 ''attendance'' JNull = dict_get s ''attendance'' (JObj [])"
    by (auto simp: dict_get_update dict_get_no_key intro: dict_get_has_key)
  have id1: "dict_get ?s1 ''id'' JNull = dict_get s ''id'' JNull"
    by (simp add: dict_get_update)
  from assms obtain att where att: "dict_get s ''attendance'' (JObj []) = JObj att"
    unfolding mark_student_def Let_def a1
    by (cases "dict_get s ''attendance'' (JObj [])") auto
  from assms att obtain r where
    r: "mark_entry m ow env qn (dict_get att date JNull) = Inr r"
    unfolding mark_student_def Let_def a1
    by (cases "mark_entry m ow env qn (dict_get att date JNull)") auto
  from assms att r have
    s': "s' = (case r of None \<Rightarrow> JObj ?s1
                   | Some v \<Rightarrow> JObj (AList.update ''attendance'' (JObj (AList.update date v att)) ?s1))"
    unfolding mark_student_def Let_def a1
    by (cases r) auto
  have day: "\<And>date'. student_day date' (JObj s) = dict_get att date' JNull"
    by (simp add: student_day_def att)
  have "has_key ?s1 ''attendance''" by (simp add: has_key_update)
  from dict_get_has_key [OF this, of "JObj []" JNull] a1 att
  have a2: "dict_get ?s1 ''attendance'' (JObj []) = JObj att" by simp
  have day1: "\<And>date'. student_day date' (JObj ?s1) = dict_get att date' JNull"
    unfolding student_day_def json.case a2 by simp
  show ?thesis
  proof (intro exI [of _ r] conjI allI)
    show "mark_entry m ow env qn (student_day date (JObj s)) = Inr r"
      using r by (simp add: day)
  next
    fix date'
    show "student_day date' s' =
           (case r of Some v \<Rightarrow> if date' = date then v else student_day date' (JObj s)
                    | None \<Rightarrow> student_day date' (JObj s))"
    proof (cases r)
      case None
      with s' day day1 show ?thesis by simp
    next
      case (Some v)
      with s' have "s' = JObj (AList.update ''attendance'' (JObj (AList.update date v att)) ?s1)"
        by simp
      then show ?thesis
        using Some by (simp add: student_day_def dict_get_update day att)
    qed
  next
    show "record_id s' = record_id (JObj s)"
      using s' id1 by (cases r) (simp_all add: record_id_def dict_get_update)
  qed
qed

lemma mark_entry_first:
  "as_int qn = Some 1 \<Longrightarrow> mark_entry m ow env qn cur = Inr (Some m)"
  by (simp add: mark_entry_def)

lemma mark_entry_structured:
  assumes "mark_entry m ow env qn cur = Inr r" and "as_int qn \<noteq> Some 1" and "structured cur"
  shows "\<exists>v. r = Some v \<and> structured v"
proof -
  from assms(3) obtain d where cur: "cur = JObj d" and hk: "has_key d ''sessions''"
    by (cases cur) (auto simp: structured_def)
  from assms(1,2) cur hk obtain ss where
    "r = Some (JObj [(''sessions'', ss), (''updated_at'', now_iso env)])"
    by (auto simp: mark_entry_def ebind_Inr_iff)
  then show ?thesis by (simp add: structured_def has_key_def)
qed

lemma mark_first_Inr:
  "mark_first rid f xs = Inr xs' \<Longrightarrow>
     \<exists>i s s'. i < length xs \<and> xs ! i = JObj s \<and> s \<noteq> [] \<and> record_id (JObj s) = rid
        \<and> (\<forall>j<i. record_id (xs ! j) \<noteq> rid) \<and> f s = Inr s' \<and> xs' = xs[i := s']"
proof (induction xs arbitrary: xs')
  case Nil
  then show ?case by simp
next
  case (Cons x xs)
  from Cons.prems obtain s where x: "x = JObj s" by (cases x) auto
  show ?case
  proof (cases "dict_get s ''id'' JNull = rid")
    case True
    with Cons.prems x obtain s' where "s \<noteq> []" "f s = Inr s'" "xs' = s' # xs"
      by (auto simp: ebind_Inr_iff split: if_splits)
    with True x show ?thesis
      by (intro exI [of _ 0] exI [of _ s] exI [of _ s']) (simp add: record_id_def)
  next
    case False
    with Cons.prems x obtain ys where ys: "mark_first rid f xs = Inr ys" and xs': "xs' = x # ys"
      by (auto simp: ebind_Inr_iff)
    from Cons.IH [OF ys] obtain i s0 s' where
      i: "i < length xs" "xs ! i = JObj s0" "s0 \<noteq> []" "record_id (JObj s0) = rid"
         "\<forall>j<i. record_id (xs ! j) \<noteq> rid" "f s0 = Inr s'" "ys = xs[i := s']"
      by blast
    have "\<forall>j<Suc i. record_id ((x # xs) ! j) \<noteq> rid"
      using i(5) False x by (auto simp: less_Suc_eq_0_disj record_id_def)
    with i xs' show ?thesis
      by (intro exI [of _ "Suc i"] exI [of _ s0] exI [of _ s']) simp
  qed
qed

lemma mark_first_list:
  "py_iter v = Inr xs \<Longrightarrow> mark_first rid f xs = Inr xs' \<Longrightarrow> v = JList xs"
  by (cases v; cases xs) auto

lemma absent_loop_Inr:
  "absent_loop env qn date active scanned xs = Inr (xs', k) \<Longrightarrow>
     list_all2 (\<lambda>x x'. \<exists>s. x = JObj s \<and>
                  (if touched active scanned x
                   then mark_student (JStr ''A'') False env qn date s = Inr x' else x' = x)) xs xs'
     \<and> k = length (filter (touched active scanned) xs)"
proof (induction xs arbitrary: xs' k)
  case Nil
  then show ?case by simp
next
  case (Cons x xs)
  from Cons.prems obtain s where x: "x = JObj s" by (cases x) auto
  from Cons.prems x obtain s' k1 ys k2 where
    h: "hashable (dict_get s ''id'' JNull)"
    and s': "(if dict_get s ''id'' JNull \<in> set active \<and> dict_get s ''id'' JNull \<notin> set scanned
              then ebind (mark_student (JStr ''A'') False env qn date s) (\<lambda>s'. Inr (s', 1))
              else Inr (JObj s, 0)) = Inr (s', k1)"
    and ys: "absent_loop env qn date active scanned xs = Inr (ys, k2)"
    and r: "xs' = s' # ys" "k = k1 + k2"
    by (auto simp: Let_def ebind_Inr_iff split: if_splits)
  from s' have "(if touched active scanned x
                   then mark_student (JStr ''A'') False env qn date s = Inr s' else s' = x)
                \<and> k1 = (if touched active scanned x then 1 else 0)"
    by (auto simp: touched_def record_id_def x ebind_Inr_iff split: if_splits)
  with Cons.IH [OF ys] r x show ?case by auto
qed

lemma absent_loop_list:
  "py_iter v = Inr xs \<Longrightarrow> absent_loop env qn date active scanned xs = Inr (xs', k) \<Longrightarrow>
     v = JList xs \<or> (xs = [] \<and> xs' = [] \<and> k = 0)"
  by (cases v; cases xs) auto

lemma update_class_cases:
  assumes "update_class env st c cd = Inr st1"
  shows "st1 = st \<or> st1 = st\<lparr>classes := (classes st)(c \<mapsto> JObj (stamp env cd))\<rparr>"
proof -
  let ?t = "dict_get cd ''teacher_id'' JNull"
  let ?m = "if truthy ?t then Inr ?t
             else (let existing = get_class st c in
                   if truthy existing then py_get existing ''teacher_id'' else Inr ?t)"
  have E: "ebind ?m (\<lambda>t. if \<not> truthy t then Inr st else if \<not> is_str t then Inl TypeError
          else Inr (st\<lparr>classes := (classes st)(c \<mapsto> JObj (stamp env cd))\<rparr>)) = Inr st1"
    using assms unfolding update_class_def Let_def .
  show ?thesis
  proof (cases ?m)
    case (Inl e)
    with E show ?thesis by simp
  next
    case (Inr t)
    with E have "(if \<not> truthy t then Inr st else if \<not> is_str t then Inl TypeError
          else Inr (st\<lparr>classes := (classes st)(c \<mapsto> JObj (stamp env cd))\<rparr>)) = Inr st1"
      by simp
    then show ?thesis by (auto split: if_splits)
  qed
qed

lemma update_class_writes:
  "dict_get cd ''teacher_id'' JNull = JStr t \<Longrightarrow> t \<noteq> [] \<Longrightarrow>
     update_class env st c cd = Inr (st\<lparr>classes := (classes st)(c \<mapsto> JObj (stamp env cd))\<rparr>)"
  by (simp add: update_class_def)

lemma stamp_not_empty [simp]: "stamp env d \<noteq> []"
  by (cases d) (auto simp: stamp_def)

lemma get_class_written [simp]:
  "get_class (st\<lparr>classes := (classes st)(c \<mapsto> JObj (stamp env cd))\<rparr>) c = JObj (stamp env cd)"
  by (simp add: get_class_def)

lemma class_students_stamp [simp]:
  "class_students (JObj (stamp env cd)) = class_students (JObj cd)"
  by (simp add: class_students_def stamp_def dict_get_update)

lemma class_students_update [simp]:
  "class_students (JObj (AList.update ''students'' (JList xs) cd)) = xs"
  by (simp add: class_students_def dict_get_update)

lemma get_class_session_update [simp]:
  "get_class (update_qr_session env st c d sd) c' = get_class st c'"
  by (simp add: get_class_def update_qr_session_def)

lemma get_enrollments_session_update [simp]:
  "get_enrollments (update_qr_session env st c d sd) c' = get_enrollments st c'"
  by (simp add: get_enrollments_def update_qr_session_def)

lemma get_qr_session_updated [simp]:
  "get_qr_session (update_qr_session env st c d sd) c d = JObj (stamp env sd)"
  by (simp add: get_qr_session_def update_qr_session_def)

lemma update_class_other:
  assumes "update_class env st c cd = Inr st1"
  shows "get_qr_session st1 c' d' = get_qr_session st c' d'"
    and "get_enrollments st1 c' = get_enrollments st c'"
  using update_class_cases [OF assms]
  by (auto simp: get_qr_session_def get_enrollments_def)

lemma stop_prepare_Inr:
  assumes "stop_prepare env st class_id teacher_id date = Inr (cd', sd, result)"
  shows "get_qr_session st class_id date = JObj sd \<and> sd \<noteq> []
         \<and> dict_get sd ''status'' JNull = JStr ''active''
         \<and> dict_get sd ''teacher_id'' JNull = JStr teacher_id
         \<and> (\<exists>scanned active cd students' k.
               py_iter (dict_get sd ''scanned_students'' (JList [])) = Inr scanned
               \<and> list_all hashable scanned
               \<and> active_student_ids (get_enrollments st class_id) = Inr active
               \<and> get_class st class_id = JObj cd
               \<and> absent_loop env (dict_get sd ''session_number'' (JInt 1)) date active scanned
                    (class_students (JObj cd)) = Inr (students', k)
               \<and> class_students (JObj cd') = students'
               \<and> dict_get cd' ''teacher_id'' JNull = dict_get cd ''teacher_id'' JNull
               \<and> result = stop_result scanned k date (dict_get sd ''session_number'' (JInt 1)))"
proof (cases "get_qr_session st class_id date")
  case (JObj d)
  let ?qn = "dict_get d ''session_number'' (JInt 1)"
  show ?thesis
  proof (cases "d = [] \<or> dict_get d ''status'' JNull \<noteq> JStr ''active''")
    case True
    with JObj have "stop_prepare env st class_id teacher_id date = Inl (ValueError ''No active session'')"
      by (simp add: stop_prepare_def)
    with assms show ?thesis by simp
  next
    case False
    then have a: "d \<noteq> []" "dict_get d ''status'' JNull = JStr ''active''" by auto
    show ?thesis
    proof (cases "dict_get d ''teacher_id'' JNull = JStr teacher_id")
      case False
      with JObj a have "stop_prepare env st class_id teacher_id date = Inl (ValueError ''Unauthorized'')"
        by (simp add: stop_prepare_def)
      with assms show ?thesis by simp
    next
      case True
      have E: "ebind (py_iter (dict_get d ''scanned_students'' (JList []))) (\<lambda>scanned.
               if \<not> list_all hashable scanned then Inl TypeError
               else
                 ebind (active_student_ids (get_enrollments st class_id)) (\<lambda>active.
                   case get_class st class_id of
                     JObj class_data \<Rightarrow>
                       ebind (py_iter (dict_get class_data ''students'' (JList []))) (\<lambda>students.
                       ebind (absent_loop env ?qn date active scanned students)
                         (\<lambda>(students', marked_absent).
                            Inr (case map_of class_data ''students'' of
                                   Some (JList xs) \<Rightarrow> AList.update ''students'' (JList students') class_data
                                 | _ \<Rightarrow> class_data,
                                 d,
                                 stop_result scanned marked_absent date ?qn)))
                   | class_data \<Rightarrow> Inl AttributeError)) = Inr (cd', sd, result)"
        using assms JObj a True by (simp add: stop_prepare_def Let_def)
      from E obtain scanned where sc: "py_iter (dict_get d ''scanned_students'' (JList [])) = Inr scanned"
        by (cases "py_iter (dict_get d ''scanned_students'' (JList []))") auto
      note E = E [unfolded sc ebind.simps]
      from E have hs: "list_all hashable scanned" by (auto split: if_splits)
      from E hs obtain active where ac: "active_student_ids (get_enrollments st class_id) = Inr active"
        by (cases "active_student_ids (get_enrollments st class_id)") auto
      from E hs ac obtain cd where cd: "get_class st class_id = JObj cd"
        by (cases "get_class st class_id") auto
      from E hs ac cd obtain students where
        ss: "py_iter (dict_get cd ''students'' (JList [])) = Inr students"
        by (cases "py_iter (dict_get cd ''students'' (JList []))") auto
      from E hs ac cd ss obtain students' k where
        al: "absent_loop env ?qn date active scanned students = Inr (students', k)"
        by (cases "absent_loop env ?qn date active scanned students") auto
      from E hs ac cd ss al have r:
        "cd' = (case map_of cd ''students'' of
                  Some (JList xs) \<Rightarrow> AList.update ''students'' (JList students') cd
                | _ \<Rightarrow> cd)"
        "sd = d" "result = stop_result scanned k date ?qn"
        by auto
      from absent_loop_list [OF ss al] have cs: "class_students (JObj cd) = students"
      proof
        assume "dict_get cd ''students'' (JList []) = JList students"
        then show ?thesis by (simp add: class_students_def)
      next
        assume e: "students = [] \<and> students' = [] \<and> k = 0"
        with ss show ?thesis
          by (cases "dict_get cd ''students'' (JList [])") (auto simp: class_students_def)
      qed
      have cs': "class_students (JObj cd') = students'"
      proof (cases "map_of cd ''students''")
        case None
        then have "dict_get cd ''students'' (JList []) = JList []" by (simp add: dict_get_def)
        with ss al r(1) None show ?thesis by (auto simp: class_students_def)
      next
        case (Some v)
        then have v: "dict_get cd ''students'' (JList []) = v" by (simp add: dict_get_def)
        show ?thesis
        proof (cases v)
          case (JList xs)
          with r(1) Some show ?thesis by simp
        next
          case JNull
          with ss v show ?thesis by simp
        next
          case (JBool x2)
          with ss v show ?thesis by simp
        next
          case (JInt x3)
          with ss v show ?thesis by simp
        next
          case (JStr x4)
          with absent_loop_list [OF ss al] v r(1) Some show ?thesis
            by (auto simp: class_students_def)
        next
          case (JObj x6)
          with absent_loop_list [OF ss al] v r(1) Some show ?thesis
            by (auto simp: class_students_def)
        qed
      qed
      have tid: "dict_get cd' ''teacher_id'' JNull = dict_get cd ''teacher_id'' JNull"
        unfolding r(1) by (auto simp: dict_get_update split: option.splits json.splits)
      from JObj a True sc hs ac cd al cs cs' tid r(2,3) show ?thesis
        by (intro conjI exI [of _ scanned] exI [of _ active] exI [of _ cd] exI [of _ students']
              exI [of _ k]) simp_all
    qed
  qed
qed (use assms in \<open>auto simp: stop_prepare_def split: if_splits\<close>)

section \<open>What a scan and a stop do to the class\<close>

lemma scan_outcome:
  "snd (scan_qr_code env st student_id class_id qr_code date) = st
   \<or> (\<exists>cd' sd rid qn st1.
         scan_prepare env st student_id class_id qr_code date = Inr (cd', sd, rid, qn)
         \<and> update_class env st class_id cd' = Inr st1
         \<and> get_class (snd (scan_qr_code env st student_id class_id qr_code date)) class_id
             = get_class st1 class_id)"
proof (cases "scan_prepare env st student_id class_id qr_code date")
  case (Inl e)
  then show ?thesis by (simp add: scan_qr_code_def)
next
  case (Inr p)
  obtain cd' sd rid qn where p: "p = (cd', sd, rid, qn)" by (cases p) auto
  show ?thesis
  proof (cases "update_class env st class_id cd'")
    case (Inl e)
    with Inr p show ?thesis by (simp add: scan_qr_code_def)
  next
    case st1: (Inr st1)
    with Inr p show ?thesis
      by (cases "record_scan (dict_get sd ''scanned_students'' (JList [])) rid")
         (simp_all add: scan_qr_code_def)
  qed
qed

lemma stop_outcome:
  "snd (stop_qr_session env st class_id teacher_id date) = st
   \<or> (\<exists>cd' sd result st1.
         stop_prepare env st class_id teacher_id date = Inr (cd', sd, result)
         \<and> update_class env st class_id cd' = Inr st1
         \<and> stop_qr_session env st class_id teacher_id date =
             (Inr result, update_qr_session env st1 class_id date
                (AList.update ''stopped_at'' (now_iso env)
                   (AList.update ''status'' (JStr ''stopped'') sd))))"
proof (cases "stop_prepare env st class_id teacher_id date")
  case (Inl e)
  then show ?thesis by (simp add: stop_qr_session_def)
next
  case (Inr p)
  obtain cd' sd result where p: "p = (cd', sd, result)" by (cases p) auto
  with Inr show ?thesis
    by (cases "update_class env st class_id cd'") (simp_all add: stop_qr_session_def)
qed

lemma list_all2_update_one:
  assumes "\<And>x. R x x" and "i < length xs" and "R (xs ! i) y"
  shows "list_all2 R xs (xs[i := y])"
  using assms by (auto simp: list_all2_conv_all_nth nth_list_update)

lemma scan_students_rel:
  assumes refl: "\<And>x. R x x"
      and pres: "\<And>s s'. mark_student (JStr ''P'') True env
                    (session_number_of st class_id date) date s = Inr s' \<Longrightarrow>
                  record_id (JObj s) = scan_target st class_id student_id \<Longrightarrow> R (JObj s) s'"
  shows "list_all2 R (class_students (get_class st class_id))
           (class_students (get_class (snd (scan_qr_code env st student_id class_id qr_code date))
              class_id))"
  using scan_outcome [of env st student_id class_id qr_code date]
proof
  assume "snd (scan_qr_code env st student_id class_id qr_code date) = st"
  then show ?thesis by (simp add: list_all2_refl refl)
next
  assume "\<exists>cd' sd rid qn st1.
         scan_prepare env st student_id class_id qr_code date = Inr (cd', sd, rid, qn)
         \<and> update_class env st class_id cd' = Inr st1
         \<and> get_class (snd (scan_qr_code env st student_id class_id qr_code date)) class_id
             = get_class st1 class_id"
  then obtain cd' sd rid qn st1 where
    prep: "scan_prepare env st student_id class_id qr_code date = Inr (cd', sd, rid, qn)"
    and upd: "update_class env st class_id cd' = Inr st1"
    and cls: "get_class (snd (scan_qr_code env st student_id class_id qr_code date)) class_id
             = get_class st1 class_id"
    by blast
  from scan_prepare_Inr [OF prep] obtain enrollment cd students students' where
    sess: "get_qr_session st class_id date = JObj sd"
    and qn: "qn = dict_get sd ''session_number'' (JInt 1)"
    and en: "find_enrollment student_id (get_enrollments st class_id) = Inr enrollment"
            "py_get enrollment ''student_record_id'' = Inr rid"
    and cd: "get_class st class_id = JObj cd"
    and it: "py_iter (dict_get cd ''students'' (JList [])) = Inr students"
    and mf: "mark_first rid (mark_student (JStr ''P'') True env qn date) students = Inr students'"
    and cd': "cd' = AList.update ''students'' (JList students') cd"
    by auto
  from sess qn have qn': "qn = session_number_of st class_id date"
    by (simp add: session_number_of_def)
  from en have rid: "scan_target st class_id student_id = rid"
    by (simp add: scan_target_def)
  from mark_first_list [OF it mf] have cs: "class_students (JObj cd) = students"
    by (simp add: class_students_def)
  from mark_first_Inr [OF mf] obtain i s s' where
    i: "i < length students" "students ! i = JObj s" "record_id (JObj s) = rid"
       "mark_student (JStr ''P'') True env qn date s = Inr s'" "students' = students[i := s']"
    by blast
  from pres [of s s'] i qn' rid have "R (students ! i) s'" by simp
  with i refl have rel: "list_all2 R students students'"
    by (simp add: list_all2_update_one)
  from update_class_cases [OF upd] show ?thesis
  proof
    assume "st1 = st"
    with cls show ?thesis by (simp add: list_all2_refl refl)
  next
    assume "st1 = st\<lparr>classes := (classes st)(class_id \<mapsto> JObj (stamp env cd'))\<rparr>"
    with cls cd cs cd' rel show ?thesis by simp
  qed
qed

lemma stop_students_rel:
  assumes refl: "\<And>x. R x x"
      and pres: "\<And>s s'. mark_student (JStr ''A'') False env
                    (session_number_of st class_id date) date s = Inr s' \<Longrightarrow>
                  touched (sweep_active st class_id) (session_scanned st class_id date) (JObj s) \<Longrightarrow>
                  R (JObj s) s'"
  shows "list_all2 R (class_students (get_class st class_id))
           (class_students (get_class (snd (stop_qr_session env st class_id teacher_id date))
              class_id))"
  using stop_outcome [of env st class_id teacher_id date]
proof
  assume "snd (stop_qr_session env st class_id teacher_id date) = st"
  then show ?thesis by (simp add: list_all2_refl refl)
next
  assume "\<exists>cd' sd result st1.
         stop_prepare env st class_id teacher_id date = Inr (cd', sd, result)
         \<and> update_class env st class_id cd' = Inr st1
         \<and> stop_qr_session env st class_id teacher_id date =
             (Inr result, update_qr_session env st1 class_id date
                (AList.update ''stopped_at'' (now_iso env)
                   (AList.update ''status'' (JStr ''stopped'') sd)))"
  then obtain cd' sd result st1 where
    prep: "stop_prepare env st class_id teacher_id date = Inr (cd', sd, result)"
    and upd: "update_class env st class_id cd' = Inr st1"
    and res: "stop_qr_session env st class_id teacher_id date =
             (Inr result, update_qr_session env st1 class_id date
                (AList.update ''stopped_at'' (now_iso env)
                   (AList.update ''status'' (JStr ''stopped'') sd)))"
    by blast
  from stop_prepare_Inr [OF prep] obtain scanned active cd students' k where
    sess: "get_qr_session st class_id date = JObj sd"
    and sc: "py_iter (dict_get sd ''scanned_students'' (JList [])) = Inr scanned"
    and ac: "active_student_ids (get_enrollments st class_id) = Inr active"
    and cd: "get_class st class_id = JObj cd"
    and al: "absent_loop env (dict_get sd ''session_number'' (JInt 1)) date active scanned
                    (class_students (JObj cd)) = Inr (students', k)"
    and cs': "class_students (JObj cd') = students'"
    by auto
  from sess have qn: "dict_get sd ''session_number'' (JInt 1) = session_number_of st class_id date"
    by (simp add: session_number_of_def)
  from sess sc have sc': "session_scanned st class_id date = scanned"
    by (simp add: session_scanned_def)
  from ac have ac': "sweep_active st class_id = active"
    by (simp add: sweep_active_def)
  from absent_loop_Inr [OF al, unfolded qn]
  have "list_all2 (\<lambda>x x'. \<exists>s. x = JObj s \<and>
                  (if touched active scanned x
                   then mark_student (JStr ''A'') False env
                          (session_number_of st class_id date) date s = Inr x'
                   else x' = x)) (class_students (JObj cd)) students'"
    by (rule conjunct1)
  then have rel: "list_all2 R (class_students (JObj cd)) students'"
  proof (rule list_all2_mono)
    fix x x'
    assume "\<exists>s. x = JObj s \<and>
                  (if touched active scanned x
                   then mark_student (JStr ''A'') False env
                          (session_number_of st class_id date) date s = Inr x'
                   else x' = x)"
    then show "R x x'" using refl pres sc' ac' by (auto split: if_splits)
  qed
  from update_class_cases [OF upd] show ?thesis
  proof
    assume "st1 = st"
    with res show ?thesis by (simp add: list_all2_refl refl)
  next
    assume "st1 = st\<lparr>classes := (classes st)(class_id \<mapsto> JObj (stamp env cd'))\<rparr>"
    with res cd cs' rel show ?thesis by simp
  qed
qed

lemmas mark_defs = mark_student_def mark_entry_def fill_structured_def build_sessions_def
  new_session_def session_id_def list_insert_def

lemmas scan_defs = scan_qr_code_def scan_prepare_def extract_code_def scan_result_def

lemmas stop_defs = stop_qr_session_def stop_prepare_def stop_result_def

section \<open>The mark written for a session\<close>

lemma session_ids_Inr: "session_ids xs = Inr ids \<Longrightarrow> ids = map record_id xs"
proof (induction xs arbitrary: ids)
  case Nil then show ?case by simp
next
  case (Cons x xs)
  from Cons.prems obtain d where x: "x = JObj d" by (cases x) (auto simp: py_get_def)
  from Cons.prems x obtain r where "session_ids xs = Inr r" "ids = dict_get d ''id'' JNull # r"
    by (auto simp: py_get_def ebind_Inr_iff split: if_splits)
  with Cons.IH [of r] x show ?case by (simp add: record_id_def)
qed

lemma record_id_new_session [simp]: "record_id (new_session i v) = JStr (session_id i)"
  by (simp add: record_id_def new_session_def dict_get_def)

lemma set_list_insert [simp]: "set (list_insert k x xs) = insert x (set xs)"
proof -
  have "set (take k xs) \<union> set (drop k xs) = set xs"
    by (metis append_take_drop_id set_append)
  then show ?thesis by (auto simp: list_insert_def)
qed

lemma fill_sessions_member:
  "n \<notin> set is \<Longrightarrow>
     JStr (session_id n) \<in> record_id ` set (fill_sessions mark ow ids n is xs)
       \<longleftrightarrow> JStr (session_id n) \<in> record_id ` set xs"
  by (induction "is" arbitrary: xs) auto

lemma find_app:
  "find P (xs @ ys) = (case find P xs of None \<Rightarrow> find P ys | Some x \<Rightarrow> Some x)"
  by (induction xs) simp_all

lemma find_list_insert_new:
  assumes "P x" and "\<forall>y\<in>set xs. \<not> P y"
  shows "find P (list_insert k x xs) = Some x"
proof -
  from assms(2) have "\<forall>y\<in>set (take k xs). \<not> P y" by (auto dest: in_set_takeD)
  then have "find P (take k xs) = None" by (simp add: find_None_iff)
  with assms(1) show ?thesis by (simp add: list_insert_def find_app)
qed

lemma find_set_status_first:
  "\<exists>y\<in>set xs. record_id y = JStr sid \<Longrightarrow>
     \<exists>d. find (\<lambda>s. record_id s = JStr sid) (set_status_first sid v xs) = Some (JObj d)
         \<and> dict_get d ''status'' JNull = v"
proof (induction xs)
  case Nil
  then show ?case by simp
next
  case (Cons x xs)
  show ?case
  proof (cases "record_id x = JStr sid")
    case True
    then obtain d where "x = JObj d" by (cases x) (auto simp: record_id_def)
    with True show ?thesis by (simp add: record_id_def dict_get_update)
  next
    case False
    with Cons.prems have "\<exists>y\<in>set xs. record_id y = JStr sid" by auto
    from Cons.IH [OF this] False show ?thesis
      by (cases x) (auto simp: record_id_def)
  qed
qed

lemma upt_last: "1 \<le> n \<Longrightarrow> [1..<Suc n] = [1..<n] @ [n]"
  by simp

lemma session_status_filled:
  assumes "1 \<le> n" and "ow \<or> JStr (session_id n) \<notin> record_id ` set xs"
  shows "session_status n (fill_sessions mark ow (map record_id xs) n [1..<Suc n] xs) = mark"
proof -
  let ?ys = "fill_sessions mark ow (map record_id xs) n [1..<n] xs"
  have mem: "JStr (session_id n) \<in> record_id ` set ?ys
               \<longleftrightarrow> JStr (session_id n) \<in> record_id ` set xs"
    by (rule fill_sessions_member) simp
  show ?thesis
  proof (cases "JStr (session_id n) \<in> record_id ` set xs")
    case True
    with assms(2) have ow by simp
    from True mem have "\<exists>y\<in>set ?ys. record_id y = JStr (session_id n)" by auto
    from find_set_status_first [OF this, of mark] True \<open>ow\<close> assms(1) show ?thesis
      unfolding upt_last [OF assms(1)] fill_sessions_append
      by (auto simp: session_status_def)
  next
    case False
    with mem have "JStr (session_id n) \<notin> record_id ` set ?ys" by simp
    then have "\<forall>y\<in>set ?ys. \<not> record_id y = JStr (session_id n)"
      by (metis imageI)
    from find_list_insert_new [of "\<lambda>s. record_id s = JStr (session_id n)"
           "new_session n mark" ?ys "n - 1", OF _ this] False assms(1)
    show ?thesis
      unfolding upt_last [OF assms(1)] fill_sessions_append
      by (simp add: session_status_def new_session_def dict_get_def record_id_def)
  qed
qed

lemma session_status_built:
  assumes "2 \<le> n"
  shows "session_status n (build_sessions mark cur n) = mark"
proof -
  let ?f = "\<lambda>i. new_session i (if i = 1 \<and> is_str cur then cur else if i = n then mark else JStr ''A'')"
  have "find (\<lambda>s. record_id s = JStr (session_id n)) (map ?f [1..<n]) = None"
    by (auto simp: find_None_iff)
  with assms have "find (\<lambda>s. record_id s = JStr (session_id n)) (build_sessions mark cur n)
          = Some (new_session n mark)"
    unfolding build_sessions_def
    by (subst upt_last) (simp_all add: find_app)
  then show ?thesis by (simp add: session_status_def new_session_def dict_get_def)
qed

lemma fill_structured_list:
  assumes "fill_structured mark ow qn v = Inr r" and "as_int qn = Some n" and "1 \<le> n"
  shows "\<exists>xs. v = JList xs
          \<and> r = JList (fill_sessions mark ow (map record_id xs) (nat n) [1..<Suc (nat n)] xs)"
proof -
  from assms(1) obtain elems where it: "py_iter v = Inr elems"
    unfolding fill_structured_def by (cases "py_iter v") auto
  from assms(1) it obtain ids where ids: "session_ids elems = Inr ids"
    unfolding fill_structured_def by (cases "session_ids elems") auto
  from assms it ids show ?thesis
    unfolding fill_structured_def
    by (cases v) (auto dest: session_ids_Inr)
qed

lemma mark_entry_marks:
  assumes "mark_entry (JStr m) ow env qn cur = Inr r" and "as_int qn = Some n" and "1 \<le> n"
      and "lacks_session (nat n) cur \<or> (ow \<and> structured cur)"
  shows "\<exists>v. r = Some v \<and> session_mark (nat n) v = JStr m \<and> (n = 1 \<longrightarrow> v = JStr m)
           \<and> (n \<noteq> 1 \<longrightarrow> structured v)"
proof (cases "n = 1")
  case True
  with assms(1,2) show ?thesis by (simp add: mark_entry_def session_mark_def)
next
  case False
  with assms(3) have n2: "2 \<le> nat n" by simp
  show ?thesis
  proof (cases "is_str cur \<or> cur = JNull")
    case True
    with assms(1,2) False
    have "r = Some (JObj [(''sessions'', JList (build_sessions (JStr m) cur (nat n))),
                              (''updated_at'', now_iso env)])"
      by (auto simp: mark_entry_def)
    with session_status_built [OF n2] False show ?thesis
      by (simp add: session_mark_def dict_get_def structured_def has_key_def)
  next
    case nostr: False
    with assms(4) obtain d where cur: "cur = JObj d" and hk: "has_key d ''sessions''"
      by (cases cur) (auto simp: lacks_session_def structured_def has_key_def split: option.splits)
    from assms(1,2) False nostr cur hk obtain ss where
      fs: "fill_structured (JStr m) ow qn (dict_get d ''sessions'' (JList [])) = Inr ss"
      and r: "r = Some (JObj [(''sessions'', ss), (''updated_at'', now_iso env)])"
      by (auto simp: mark_entry_def ebind_Inr_iff)
    from fill_structured_list [OF fs assms(2,3)] obtain xs where
      xs: "dict_get d ''sessions'' (JList []) = JList xs"
      and ss: "ss = JList (fill_sessions (JStr m) ow (map record_id xs) (nat n) [1..<Suc (nat n)] xs)"
      by blast
    from hk xs have mo: "map_of d ''sessions'' = Some (JList xs)"
      by (auto simp: has_key_def dict_get_def)
    from assms(4) cur mo have c: "ow \<or> JStr (session_id (nat n)) \<notin> record_id ` set xs"
      by (auto simp: lacks_session_def)
    from n2 have "1 \<le> nat n" by simp
    from session_status_filled [OF this c, of "JStr m"] r ss False show ?thesis
      by (simp add: session_mark_def dict_get_def structured_def has_key_def)
  qed
qed

section \<open>The code a scan is checked against\<close>

text \<open>
  Claim C8, as amended. The value compared with \<^verbatim>\<open>current_code\<close> is the field
  \<^verbatim>\<open>code\<close> of the input when the input parses as a JSON object (null when the
  object has no such field), and the whole input when it does not parse or parses as
  anything but an object. On an active session the scan fails with the invalid-code
  error exactly when that value differs from \<^verbatim>\<open>current_code\<close>.
\<close>

theorem scan_code_check:
  assumes "get_qr_session st class_id date = JObj session_data"
      and "session_data \<noteq> []"
      and "dict_get session_data ''status'' JNull = JStr ''active''"
  shows "extract_code env qr_code =
           (case json_loads env qr_code of
              Some (JObj d) \<Rightarrow> dict_get d ''code'' JNull
            | _ \<Rightarrow> JStr qr_code)
         \<and> (fst (scan_qr_code env st student_id class_id qr_code date)
               = Inl (ValueError ''Invalid or expired QR code'')
             \<longleftrightarrow> dict_get session_data ''current_code'' JNull \<noteq> extract_code env qr_code)"
proof (intro conjI iffI)
  show "extract_code env qr_code =
           (case json_loads env qr_code of
              Some (JObj d) \<Rightarrow> dict_get d ''code'' JNull
            | _ \<Rightarrow> JStr qr_code)"
    by (rule extract_code_cases)
next
  assume ne: "dict_get session_data ''current_code'' JNull \<noteq> extract_code env qr_code"
  with assms have "scan_prepare env st student_id class_id qr_code date
                     = Inl (ValueError ''Invalid or expired QR code'')"
    by (simp add: scan_prepare_def)
  then show "fst (scan_qr_code env st student_id class_id qr_code date)
               = Inl (ValueError ''Invalid or expired QR code'')"
    by (simp add: scan_qr_code_def)
next
  assume bad: "fst (scan_qr_code env st student_id class_id qr_code date)
               = Inl (ValueError ''Invalid or expired QR code'')"
  show "dict_get session_data ''current_code'' JNull \<noteq> extract_code env qr_code"
  proof
    assume eq: "dict_get session_data ''current_code'' JNull = extract_code env qr_code"
    show False
    proof (cases "scan_prepare env st student_id class_id qr_code date")
      case (Inl e)
      with bad have "e = ValueError ''Invalid or expired QR code''"
        by (simp add: scan_qr_code_def)
      with scan_prepare_err [OF Inl assms(1) eq] show False by simp
    next
      case (Inr p)
      obtain cd sd rid qn where p: "p = (cd, sd, rid, qn)" by (cases p) auto
      show False
      proof (cases "update_class env st class_id cd")
        case (Inl e)
        with bad Inr p have "e = ValueError ''Invalid or expired QR code''"
          by (simp add: scan_qr_code_def)
        with update_class_err [OF Inl] show False by auto
      next
        case st1: (Inr st1)
        show False
        proof (cases "record_scan (dict_get sd ''scanned_students'' (JList [])) rid")
          case (Inl e)
          with bad Inr p st1 have "e = ValueError ''Invalid or expired QR code''"
            by (simp add: scan_qr_code_def)
          with record_scan_err [OF Inl] show False by auto
        next
          case (Inr a)
          with bad \<open>scan_prepare env st student_id class_id qr_code date = Inr p\<close> p st1
          show False by (simp add: scan_qr_code_def)
        qed
      qed
    qed
  qed
qed



theorem scan_code_check_witness:
  "get_qr_session (ex_store [] (Some (JObj (ex_session 1 ''ABCD1234'' [])))) ''c1'' ''d1''
     = JObj (ex_session 1 ''ABCD1234'' [])
   \<and> extract_code (ex_env 0 ''ABCD1234'') ''[]'' = JStr ''[]''
   \<and> fst (scan_qr_code (ex_env 0 ''ABCD1234'') (ex_store [] (Some (JObj (ex_session 1 ''ABCD1234'' []))))
            ''s1'' ''c1'' ''[]'' ''d1'') = Inl (ValueError ''Invalid or expired QR code'')"
proof -
  have a: "get_qr_session (ex_store [] (Some (JObj (ex_session 1 ''ABCD1234'' [])))) ''c1'' ''d1''
     = JObj (ex_session 1 ''ABCD1234'' [])"
    by (simp add: get_qr_session_def ex_store_def)
  have b: "ex_session 1 ''ABCD1234'' [] \<noteq> []" by (simp add: ex_session_def)
  have c: "dict_get (ex_session 1 ''ABCD1234'' []) ''status'' JNull = JStr ''active''"
    by (simp add: ex_session_def dict_get_def)
  have d: "dict_get (ex_session 1 ''ABCD1234'' []) ''current_code'' JNull = JStr ''ABCD1234''"
    by (simp add: ex_session_def dict_get_def)
  have e: "json_loads (ex_env 0 ''ABCD1234'') ''[]'' = Some (JList [])"
    by (simp add: ex_env_def ex_loads_def)
  from scan_code_check [OF a b c, of "ex_env 0 ''ABCD1234''" "''[]''" "''s1''"] a
  show ?thesis by (simp add: d e)
qed

text \<open>
  As stated, C8 takes the whole input for an object without the field. The object
  \<^verbatim>\<open>{}\<close> gives null instead, so a session whose code is literally \<^verbatim>\<open>{}\<close> rejects it.
\<close>

theorem scan_code_counterexample:
  "json_loads (ex_env 0 ''ABCD1234'') ''{}'' = Some (JObj [])
   \<and> extract_code (ex_env 0 ''ABCD1234'') ''{}'' = JNull
   \<and> fst (scan_qr_code (ex_env 0 ''ABCD1234'') (ex_store [] (Some (JObj (ex_session 1 ''{}'' []))))
            ''s1'' ''c1'' ''{}'' ''d1'') = Inl (ValueError ''Invalid or expired QR code'')"
  by (simp add: scan_qr_code_def scan_prepare_def extract_code_def ex_defs store_defs py_defs)

section \<open>Failures leave the store as it was\<close>

lemma scan_keeps_session_type:
  assumes "scanned_is_list (get_qr_session st class_id date)"
  shows "scanned_is_list
           (get_qr_session (snd (scan_qr_code env st student_id class_id qr_code date)) class_id date)"
proof (cases "scan_prepare env st student_id class_id qr_code date")
  case (Inl e)
  with assms show ?thesis by (simp add: scan_qr_code_def)
next
  case (Inr p)
  obtain cd sd rid qn where p: "p = (cd, sd, rid, qn)" by (cases p) auto
  from Inr p have sess: "get_qr_session st class_id date = JObj sd"
    by (simp add: scan_prepare_session)
  with assms obtain xs where xs: "dict_get sd ''scanned_students'' (JList []) = JList xs"
    by (auto simp: scanned_is_list_def split: json.splits)
  show ?thesis
  proof (cases "update_class env st class_id cd")
    case (Inl e)
    with Inr p assms show ?thesis by (simp add: scan_qr_code_def)
  next
    case st1: (Inr st1)
    with Inr p xs show ?thesis
      by (simp add: scan_qr_code_def scanned_is_list_def dict_get_update stamp_def)
  qed
qed

lemma start_prepare_Inr:
  assumes "start_prepare env st class_id teacher_id date rotation_interval = Inr q"
  shows "\<exists>cd k. get_class st class_id = JObj cd
           \<and> dict_get cd ''teacher_id'' JNull = JStr teacher_id
           \<and> count_valid_sessions_for_date (JObj cd) date = Inr k
           \<and> q = JObj
                          [(''class_id'', JStr class_id),
                           (''teacher_id'', JStr teacher_id),
                           (''date'', JStr date),
                           (''session_number'', JInt (k + 1)),
                           (''started_at'', now_iso env),
                           (''rotation_interval'', JInt rotation_interval),
                           (''current_code'', JStr (generate_qr_code env)),
                           (''code_generated_at'', now_iso env),
                           (''scanned_students'', JList []),
                           (''status'', JStr ''active'')]"
proof -
  let ?c = "get_class st class_id"
  note E = assms [unfolded start_prepare_def Let_def]
  from E have tr: "truthy ?c" by (auto split: if_splits)
  from E tr obtain owner where ow: "py_get ?c ''teacher_id'' = Inr owner"
    by (cases "py_get ?c ''teacher_id''") auto
  then obtain cd where cd: "?c = JObj cd" by (cases ?c) (auto simp: py_get_def)
  from E tr ow have own: "owner = JStr teacher_id" by (auto split: if_splits)
  from E tr ow own obtain mode where
    mo: "py_get_default ?c ''enrollment_mode'' (JStr ''manual_entry'') = Inr mode"
    by (cases "py_get_default ?c ''enrollment_mode'' (JStr ''manual_entry'')") auto
  from E tr ow own mo have mode: "mode = JStr ''enrollment_via_id''" by (auto split: if_splits)
  from E tr ow own mo mode obtain k where k: "count_valid_sessions_for_date ?c date = Inr k"
    by (cases "count_valid_sessions_for_date ?c date") auto
  let ?x = "get_qr_session st class_id date"
  from E tr ow own mo mode k obtain status where
    st: "(if truthy ?x then py_get ?x ''status'' else Inr JNull) = Inr status"
    by (cases "if truthy ?x then py_get ?x ''status'' else Inr JNull") auto
  from E tr ow own mo mode k st have "q = JObj
                          [(''class_id'', JStr class_id),
                           (''teacher_id'', JStr teacher_id),
                           (''date'', JStr date),
                           (''session_number'', JInt (k + 1)),
                           (''started_at'', now_iso env),
                           (''rotation_interval'', JInt rotation_interval),
                           (''current_code'', JStr (generate_qr_code env)),
                           (''code_generated_at'', now_iso env),
                           (''scanned_students'', JList []),
                           (''status'', JStr ''active'')]"
    by (auto split: if_splits)
  moreover from ow own cd have "dict_get cd ''teacher_id'' JNull = JStr teacher_id"
    by (simp add: py_get_def)
  ultimately show ?thesis using cd k by auto
qed

lemma start_session_type:
  assumes "fst (start_qr_session env st class_id teacher_id date rotation_interval) = Inr s"
  shows "scanned_is_list
           (get_qr_session (snd (start_qr_session env st class_id teacher_id date rotation_interval))
              class_id date)"
proof (cases "start_prepare env st class_id teacher_id date rotation_interval")
  case (Inl e)
  with assms show ?thesis by (simp add: start_qr_session_def)
next
  case (Inr q)
  from start_prepare_Inr [OF Inr] obtain k where "q = JObj
                          [(''class_id'', JStr class_id),
                           (''teacher_id'', JStr teacher_id),
                           (''date'', JStr date),
                           (''session_number'', JInt (k + 1)),
                           (''started_at'', now_iso env),
                           (''rotation_interval'', JInt rotation_interval),
                           (''current_code'', JStr (generate_qr_code env)),
                           (''code_generated_at'', now_iso env),
                           (''scanned_students'', JList []),
                           (''status'', JStr ''active'')]" by blast
  with Inr show ?thesis
    by (simp add: start_qr_session_def create_qr_session_def get_qr_session_def
          scanned_is_list_def dict_get_def)
qed

text \<open>
  Claim C7, as amended. A call of \<^verbatim>\<open>start_qr_session\<close> or \<^verbatim>\<open>stop_qr_session\<close> that
  raises leaves every stored record unchanged. So does a call of \<^verbatim>\<open>scan_qr_code\<close>
  that raises a ValueError (no active session, invalid code, not enrolled, class or
  record not found), and a call that raises anything at all on a session whose
  scanned students are a list, which is what a start stores and a scan keeps. A
  start by a teacher who is not the owner of the class raises and stores no session.
\<close>

theorem failure_atomicity:
  "(fst (start_qr_session env st class_id teacher_id date rotation_interval) = Inl e \<longrightarrow>
      snd (start_qr_session env st class_id teacher_id date rotation_interval) = st)
   \<and> (fst (stop_qr_session env st class_id teacher_id date) = Inl e \<longrightarrow>
      snd (stop_qr_session env st class_id teacher_id date) = st)
   \<and> (fst (scan_qr_code env st student_id class_id qr_code date) = Inl (ValueError msg) \<longrightarrow>
      snd (scan_qr_code env st student_id class_id qr_code date) = st)
   \<and> (scanned_is_list (get_qr_session st class_id date) \<longrightarrow>
      fst (scan_qr_code env st student_id class_id qr_code date) = Inl e \<longrightarrow>
      snd (scan_qr_code env st student_id class_id qr_code date) = st)
   \<and> (get_class st class_id = JObj class_data \<longrightarrow>
      dict_get class_data ''teacher_id'' JNull \<noteq> JStr teacher_id \<longrightarrow>
      start_qr_session env st class_id teacher_id date rotation_interval
        = (Inl (ValueError ''Class not found or unauthorized''), st))
   \<and> (fst (start_qr_session env st class_id teacher_id date rotation_interval) = Inr s \<longrightarrow>
      scanned_is_list
        (get_qr_session (snd (start_qr_session env st class_id teacher_id date rotation_interval))
           class_id date))
   \<and> (scanned_is_list (get_qr_session st class_id date) \<longrightarrow>
      scanned_is_list
        (get_qr_session (snd (scan_qr_code env st student_id class_id qr_code date)) class_id date))"
proof (intro conjI impI)
  assume "fst (start_qr_session env st class_id teacher_id date rotation_interval) = Inl e"
  then show "snd (start_qr_session env st class_id teacher_id date rotation_interval) = st"
    by (simp add: start_qr_session_def split: sum.splits)
next
  assume "fst (stop_qr_session env st class_id teacher_id date) = Inl e"
  then show "snd (stop_qr_session env st class_id teacher_id date) = st"
    by (simp add: stop_qr_session_def split: sum.splits prod.splits)
next
  assume bad: "fst (scan_qr_code env st student_id class_id qr_code date) = Inl (ValueError msg)"
  show "snd (scan_qr_code env st student_id class_id qr_code date) = st"
  proof (cases "scan_prepare env st student_id class_id qr_code date")
    case (Inl a)
    then show ?thesis by (simp add: scan_qr_code_def)
  next
    case (Inr p)
    obtain cd sd rid qn where p: "p = (cd, sd, rid, qn)" by (cases p) auto
    show ?thesis
    proof (cases "update_class env st class_id cd")
      case (Inl a)
      with Inr p show ?thesis by (simp add: scan_qr_code_def)
    next
      case st1: (Inr st1)
      show ?thesis
      proof (cases "record_scan (dict_get sd ''scanned_students'' (JList [])) rid")
        case (Inl a)
        with bad Inr p st1 have "a = ValueError msg" by (simp add: scan_qr_code_def)
        with record_scan_err [OF Inl] show ?thesis by auto
      next
        case (Inr a)
        with bad \<open>scan_prepare env st student_id class_id qr_code date = Inr p\<close> p st1
        show ?thesis by (simp add: scan_qr_code_def)
      qed
    qed
  qed
next
  assume wf: "scanned_is_list (get_qr_session st class_id date)"
     and bad: "fst (scan_qr_code env st student_id class_id qr_code date) = Inl e"
  show "snd (scan_qr_code env st student_id class_id qr_code date) = st"
  proof (cases "scan_prepare env st student_id class_id qr_code date")
    case (Inl a)
    then show ?thesis by (simp add: scan_qr_code_def)
  next
    case (Inr p)
    obtain cd sd rid qn where p: "p = (cd, sd, rid, qn)" by (cases p) auto
    from Inr p have "get_qr_session st class_id date = JObj sd"
      by (simp add: scan_prepare_session)
    with wf obtain xs where "dict_get sd ''scanned_students'' (JList []) = JList xs"
      by (auto simp: scanned_is_list_def split: json.splits)
    with Inr p bad show ?thesis
      by (simp add: scan_qr_code_def split: sum.splits)
  qed
next
  assume "get_class st class_id = JObj class_data"
     and "dict_get class_data ''teacher_id'' JNull \<noteq> JStr teacher_id"
  then show "start_qr_session env st class_id teacher_id date rotation_interval
        = (Inl (ValueError ''Class not found or unauthorized''), st)"
    by (simp add: start_qr_session_def start_prepare_def py_get_def Let_def)
next
  assume "fst (start_qr_session env st class_id teacher_id date rotation_interval) = Inr s"
  then show "scanned_is_list
        (get_qr_session (snd (start_qr_session env st class_id teacher_id date rotation_interval))
           class_id date)"
    by (rule start_session_type)
next
  assume "scanned_is_list (get_qr_session st class_id date)"
  then show "scanned_is_list
        (get_qr_session (snd (scan_qr_code env st student_id class_id qr_code date)) class_id date)"
    by (rule scan_keeps_session_type)
qed

theorem failure_atomicity_witness:
  "snd (start_qr_session (ex_env 0 ''ABCD1234'') (ex_store [] None) ''c1'' ''t2'' ''d1'' 5)
     = ex_store [] None
   \<and> fst (start_qr_session (ex_env 0 ''ABCD1234'') (ex_store [] None) ''c1'' ''t2'' ''d1'' 5)
     = Inl (ValueError ''Class not found or unauthorized'')
   \<and> fst (stop_qr_session (ex_env 0 ''ABCD1234'')
            (ex_store [] (Some (JObj (ex_session 1 ''ABCD1234'' [])))) ''c1'' ''t2'' ''d1'')
     = Inl (ValueError ''Unauthorized'')
   \<and> snd (stop_qr_session (ex_env 0 ''ABCD1234'')
            (ex_store [] (Some (JObj (ex_session 1 ''ABCD1234'' [])))) ''c1'' ''t2'' ''d1'')
     = ex_store [] (Some (JObj (ex_session 1 ''ABCD1234'' [])))
   \<and> scanned_is_list (get_qr_session (ex_store [] (Some (JObj (ex_session 1 ''ABCD1234'' [])))) ''c1'' ''d1'')
   \<and> fst (scan_qr_code (ex_env 0 ''ABCD1234'')
            (ex_store [] (Some (JObj (ex_session 1 ''ABCD1234'' [])))) ''s1'' ''c1'' ''WXYZ5678'' ''d1'')
     = Inl (ValueError ''Invalid or expired QR code'')
   \<and> snd (scan_qr_code (ex_env 0 ''ABCD1234'')
            (ex_store [] (Some (JObj (ex_session 1 ''ABCD1234'' [])))) ''s1'' ''c1'' ''WXYZ5678'' ''d1'')
     = ex_store [] (Some (JObj (ex_session 1 ''ABCD1234'' [])))
   \<and> fst (start_qr_session (ex_env 0 ''ABCD1234'') (ex_store [] None) ''c1'' ''t1'' ''d1'' 5)
     = Inr (JObj (ex_session 1 ''ABCD1234'' []))
   \<and> scanned_is_list (get_qr_session
        (snd (start_qr_session (ex_env 0 ''ABCD1234'') (ex_store [] None) ''c1'' ''t1'' ''d1'' 5))
        ''c1'' ''d1'')
   \<and> scanned_is_list (get_qr_session
        (snd (scan_qr_code (ex_env 0 ''ABCD1234'')
            (ex_store [] (Some (JObj (ex_session 1 ''ABCD1234'' [])))) ''s1'' ''c1'' ''WXYZ5678'' ''d1''))
        ''c1'' ''d1'')"
proof -
  let ?env = "ex_env 0 ''ABCD1234''"
  let ?st = "ex_store [] (Some (JObj (ex_session 1 ''ABCD1234'' [])))"
  have cls: "get_class (ex_store [] None) ''c1'' = JObj [(''teacher_id'', JStr ''t1''),
        (''enrollment_mode'', JStr ''enrollment_via_id''), (''students'', JList [])]"
    by (simp add: get_class_def ex_store_def ex_class_def)
  have own: "dict_get [(''teacher_id'', JStr ''t1''),
        (''enrollment_mode'', JStr ''enrollment_via_id''), (''students'', JList [])] ''teacher_id'' JNull
        \<noteq> JStr ''t2''"
    by (simp add: dict_get_def)
  have start: "start_qr_session ?env (ex_store [] None) ''c1'' ''t2'' ''d1'' 5
        = (Inl (ValueError ''Class not found or unauthorized''), ex_store [] None)"
    using failure_atomicity [of ?env "ex_store [] None" "''c1''" "''t2''" "''d1''" 5] cls own
    by simp
  have stop: "fst (stop_qr_session ?env ?st ''c1'' ''t2'' ''d1'') = Inl (ValueError ''Unauthorized'')"
    by (simp add: stop_qr_session_def stop_prepare_def get_qr_session_def ex_store_def
          ex_session_def dict_get_def)
  have wf: "scanned_is_list (get_qr_session ?st ''c1'' ''d1'')"
    by (simp add: scanned_is_list_def get_qr_session_def ex_store_def ex_session_def dict_get_def)
  have scan: "fst (scan_qr_code ?env ?st ''s1'' ''c1'' ''WXYZ5678'' ''d1'')
        = Inl (ValueError ''Invalid or expired QR code'')"
    by (simp add: scan_qr_code_def scan_prepare_def extract_code_def get_qr_session_def
          ex_store_def ex_session_def ex_env_def ex_loads_def dict_get_def)
  have ok: "fst (start_qr_session ?env (ex_store [] None) ''c1'' ''t1'' ''d1'' 5)
        = Inr (JObj (ex_session 1 ''ABCD1234'' []))"
    by (simp add: start_qr_session_def start_prepare_def count_valid_sessions_for_date_def
          ex_defs store_defs py_defs)
  from failure_atomicity [of ?env ?st "''c1''" "''t2''" "''d1''" 5 "ValueError ''Unauthorized''"] stop
  have stop': "snd (stop_qr_session ?env ?st ''c1'' ''t2'' ''d1'') = ?st" by simp
  from failure_atomicity [of ?env ?st "''c1''" "''t2''" "''d1''" 5 _ "''s1''" "''WXYZ5678''"
         "''Invalid or expired QR code''"] wf scan
  have scan': "snd (scan_qr_code ?env ?st ''s1'' ''c1'' ''WXYZ5678'' ''d1'') = ?st"
    and keep: "scanned_is_list (get_qr_session
        (snd (scan_qr_code ?env ?st ''s1'' ''c1'' ''WXYZ5678'' ''d1'')) ''c1'' ''d1'')"
    by simp_all
  from failure_atomicity [of ?env "ex_store [] None" "''c1''" "''t1''" "''d1''" 5 _ _ _ _ _
         "JObj (ex_session 1 ''ABCD1234'' [])"] ok
  have fresh: "scanned_is_list (get_qr_session
        (snd (start_qr_session ?env (ex_store [] None) ''c1'' ''t1'' ''d1'' 5)) ''c1'' ''d1'')"
    by simp
  from start stop stop' wf scan scan' ok fresh keep show ?thesis by simp
qed

text \<open>
  As stated, C7 covers every failure of a scan. The scan writes the class record
  before it records the student in the session: on a session whose
  \<^verbatim>\<open>scanned_students\<close> is null the membership test raises TypeError after the
  student's mark has been stored.
\<close>

theorem failure_atomicity_counterexample:
  "fst (scan_qr_code (ex_env 0 ''ABCD1234'')
          (ex_store [ex_student ''r1'' []]
             (Some (JObj (AList.update ''scanned_students'' JNull (ex_session 1 ''ABCD1234'' [])))))
          ''s1'' ''c1'' ''ABCD1234'' ''d1'') = Inl TypeError
   \<and> student_day ''d1'' (class_students (get_class
          (ex_store [ex_student ''r1'' []]
             (Some (JObj (AList.update ''scanned_students'' JNull (ex_session 1 ''ABCD1234'' [])))))
          ''c1'') ! 0) = JNull
   \<and> student_day ''d1'' (class_students (get_class
        (snd (scan_qr_code (ex_env 0 ''ABCD1234'')
          (ex_store [ex_student ''r1'' []]
             (Some (JObj (AList.update ''scanned_students'' JNull (ex_session 1 ''ABCD1234'' [])))))
          ''s1'' ''c1'' ''ABCD1234'' ''d1'')) ''c1'') ! 0) = JStr ''P''"
  by (simp add: scan_defs mark_defs student_day_def class_students_def
        ex_defs store_defs py_defs Let_def)

section \<open>Reading the active session\<close>

lemma get_active_fresh:
  assumes "get_qr_session st class_id date = JObj session_data"
      and "session_data \<noteq> []"
      and "dict_get session_data ''status'' JNull = JStr ''active''"
      and "map_of session_data ''code_generated_at'' = Some (JStr generated)"
      and "fromisoformat env generated = Some code_time"
      and "map_of session_data ''rotation_interval'' = Some interval"
      and "as_int interval = Some rotation_interval"
      and "utcnow env - code_time < rotation_interval * 1000000"
  shows "get_active_qr_session env st class_id date = (Inr (JObj session_data), st)"
  using assms
  by (simp add: get_active_qr_session_def dict_index_def py_fromisoformat_def)

lemma get_active_due:
  assumes "get_qr_session st class_id date = JObj session_data"
      and "session_data \<noteq> []"
      and "dict_get session_data ''status'' JNull = JStr ''active''"
      and "map_of session_data ''code_generated_at'' = Some (JStr generated)"
      and "fromisoformat env generated = Some code_time"
      and "map_of session_data ''rotation_interval'' = Some interval"
      and "as_int interval = Some rotation_interval"
      and "rotation_interval * 1000000 \<le> utcnow env - code_time"
  shows "get_active_qr_session env st class_id date =
           (Inr (JObj (stamp env (rotate env session_data))),
            st\<lparr>qr_sessions := (qr_sessions st)((class_id, date) \<mapsto>
                  JObj (stamp env (rotate env session_data)))\<rparr>)"
  using assms
  by (simp add: get_active_qr_session_def dict_index_def py_fromisoformat_def update_qr_session_def)

lemma map_of_rotated:
  "map_of (stamp env (rotate env session_data)) =
     (map_of session_data)(''current_code'' \<mapsto> JStr (generate_qr_code env),
                           ''code_generated_at'' \<mapsto> now_iso env,
                           ''updated_at'' \<mapsto> now_iso env)"
  by (simp add: stamp_def rotate_def update_conv')

text \<open>
  Claim C6, as amended. For an active session, a read less than
  \<^verbatim>\<open>rotation_interval\<close> seconds after \<^verbatim>\<open>code_generated_at\<close> returns the session as
  stored and writes nothing; a read at or after the interval sets \<^verbatim>\<open>current_code\<close>
  to the code the generator gives, sets \<^verbatim>\<open>code_generated_at\<close> to the time of the
  read, stores the session and returns what it stored.
\<close>

theorem get_active_rotation:
  assumes "get_qr_session st class_id date = JObj session_data"
      and "session_data \<noteq> []"
      and "dict_get session_data ''status'' JNull = JStr ''active''"
      and "map_of session_data ''code_generated_at'' = Some (JStr generated)"
      and "fromisoformat env generated = Some code_time"
      and "map_of session_data ''rotation_interval'' = Some interval"
      and "as_int interval = Some rotation_interval"
  shows "(utcnow env - code_time < rotation_interval * 1000000 \<longrightarrow>
            get_active_qr_session env st class_id date = (Inr (JObj session_data), st))
       \<and> (rotation_interval * 1000000 \<le> utcnow env - code_time \<longrightarrow>
            get_active_qr_session env st class_id date =
              (Inr (JObj (stamp env (rotate env session_data))),
               st\<lparr>qr_sessions := (qr_sessions st)((class_id, date) \<mapsto>
                     JObj (stamp env (rotate env session_data)))\<rparr>)
            \<and> map_of (stamp env (rotate env session_data)) ''current_code''
                = Some (JStr (generate_qr_code env))
            \<and> map_of (stamp env (rotate env session_data)) ''code_generated_at''
                = Some (JStr (isoformat env (utcnow env))))"
proof (intro conjI impI)
  assume "utcnow env - code_time < rotation_interval * 1000000"
  with assms show "get_active_qr_session env st class_id date = (Inr (JObj session_data), st)"
    by (rule get_active_fresh)
next
  assume "rotation_interval * 1000000 \<le> utcnow env - code_time"
  with assms show "get_active_qr_session env st class_id date =
              (Inr (JObj (stamp env (rotate env session_data))),
               st\<lparr>qr_sessions := (qr_sessions st)((class_id, date) \<mapsto>
                     JObj (stamp env (rotate env session_data)))\<rparr>)"
    by (rule get_active_due)
qed (simp_all add: map_of_rotated now_iso_def)

lemma ex_session_facts:
  "get_qr_session (ex_store ss (Some (JObj (ex_session n code scanned)))) ''c1'' ''d1''
     = JObj (ex_session n code scanned)"
  "ex_session n code scanned \<noteq> []"
  "dict_get (ex_session n code scanned) ''status'' JNull = JStr ''active''"
  "map_of (ex_session n code scanned) ''code_generated_at'' = Some (JStr ''1970-01-01T00:00:00'')"
  "fromisoformat (ex_env t c) ''1970-01-01T00:00:00'' = Some 0"
  "map_of (ex_session n code scanned) ''rotation_interval'' = Some (JInt 5)"
  "as_int (JInt 5) = Some 5"
  by (simp_all add: get_qr_session_def ex_store_def ex_session_def dict_get_def ex_env_def
        ex_fromisoformat_def)

theorem get_active_rotation_witness:
  "get_active_qr_session (ex_env 4000000 ''WXYZ5678'')
       (ex_store [] (Some (JObj (ex_session 1 ''ABCD1234'' [])))) ''c1'' ''d1''
     = (Inr (JObj (ex_session 1 ''ABCD1234'' [])),
        ex_store [] (Some (JObj (ex_session 1 ''ABCD1234'' []))))
   \<and> returned_field (get_active_qr_session (ex_env 6000000 ''WXYZ5678'')
       (ex_store [] (Some (JObj (ex_session 1 ''ABCD1234'' [])))) ''c1'' ''d1'') ''current_code''
     = Inr (JStr ''WXYZ5678'')
   \<and> returned_field (get_active_qr_session (ex_env 6000000 ''WXYZ5678'')
       (ex_store [] (Some (JObj (ex_session 1 ''ABCD1234'' [])))) ''c1'' ''d1'') ''code_generated_at''
     = Inr (JStr ''1970-01-01T00:00:06'')"
proof -
  let ?st = "ex_store [] (Some (JObj (ex_session 1 ''ABCD1234'' [])))"
  let ?e4 = "ex_env 4000000 ''WXYZ5678''"
  let ?e6 = "ex_env 6000000 ''WXYZ5678''"
  note facts = ex_session_facts
  note early = get_active_rotation [where env = ?e4 and st = ?st
      and session_data = "ex_session 1 ''ABCD1234'' []", OF facts(1-4) facts(5) facts(6,7)]
  note late = get_active_rotation [where env = ?e6 and st = ?st
      and session_data = "ex_session 1 ''ABCD1234'' []", OF facts(1-4) facts(5) facts(6,7)]
  have a: "utcnow ?e4 - 0 < 5 * 1000000"
    by (simp add: ex_env_def)
  have b: "5 * 1000000 \<le> utcnow ?e6 - 0"
    by (simp add: ex_env_def)
  from early a have 1: "get_active_qr_session ?e4 ?st ''c1'' ''d1''
     = (Inr (JObj (ex_session 1 ''ABCD1234'' [])), ?st)"
    by blast
  from late b have 2: "fst (get_active_qr_session ?e6 ?st ''c1'' ''d1'') =
              Inr (JObj (stamp ?e6 (rotate ?e6 (ex_session 1 ''ABCD1234'' []))))"
    and 3: "map_of (stamp ?e6 (rotate ?e6 (ex_session 1 ''ABCD1234'' [])))
               ''current_code'' = Some (JStr (generate_qr_code ?e6))"
    and 4: "map_of (stamp ?e6 (rotate ?e6 (ex_session 1 ''ABCD1234'' [])))
               ''code_generated_at'' = Some (JStr (isoformat ?e6 (utcnow ?e6)))"
    by simp_all
  have 5: "generate_qr_code ?e6 = ''WXYZ5678''"
    "isoformat ?e6 (utcnow ?e6) = ''1970-01-01T00:00:06''"
    by (simp_all add: generate_qr_code_def ex_env_def ex_isoformat_def)
  show ?thesis
    unfolding 1 returned_field_def 2
    by (simp add: py_get_def dict_get_def 3 4 5)
qed

text \<open>
  As stated, C6 has the new code differ from the old one. Nothing in the code makes
  it so: when the generator draws the code the session already has, the rotation
  takes place and the code returned is the old one.
\<close>

theorem get_active_rotation_counterexample:
  "py_get (get_qr_session (ex_store [] (Some (JObj (ex_session 1 ''ABCD1234'' [])))) ''c1'' ''d1'')
       ''current_code'' = Inr (JStr ''ABCD1234'')
   \<and> returned_field (get_active_qr_session (ex_env 6000000 ''ABCD1234'')
       (ex_store [] (Some (JObj (ex_session 1 ''ABCD1234'' [])))) ''c1'' ''d1'') ''current_code''
     = Inr (JStr ''ABCD1234'')
   \<and> returned_field (get_active_qr_session (ex_env 6000000 ''ABCD1234'')
       (ex_store [] (Some (JObj (ex_session 1 ''ABCD1234'' [])))) ''c1'' ''d1'') ''code_generated_at''
     = Inr (JStr ''1970-01-01T00:00:06'')"
  by (simp add: returned_field_def get_active_qr_session_def rotate_def py_fromisoformat_def
        ex_defs store_defs py_defs)

text \<open>
  Claim C10, as amended. A rotation changes \<^verbatim>\<open>current_code\<close>, \<^verbatim>\<open>code_generated_at\<close>
  and the \<^verbatim>\<open>updated_at\<close> stamp of the backend; every other field of the session,
  among them \<^verbatim>\<open>session_number\<close>, \<^verbatim>\<open>scanned_students\<close>, \<^verbatim>\<open>status\<close>,
  \<^verbatim>\<open>started_at\<close>, \<^verbatim>\<open>rotation_interval\<close>, \<^verbatim>\<open>teacher_id\<close> and \<^verbatim>\<open>last_scan_at\<close>, is
  returned and stored as it was.
\<close>

theorem rotation_frame:
  assumes "get_qr_session st class_id date = JObj session_data"
      and "session_data \<noteq> []"
      and "dict_get session_data ''status'' JNull = JStr ''active''"
      and "map_of session_data ''code_generated_at'' = Some (JStr generated)"
      and "fromisoformat env generated = Some code_time"
      and "map_of session_data ''rotation_interval'' = Some interval"
      and "as_int interval = Some rotation_interval"
      and "rotation_interval * 1000000 \<le> utcnow env - code_time"
      and "k \<noteq> ''current_code''" and "k \<noteq> ''code_generated_at''" and "k \<noteq> ''updated_at''"
  shows "returned_field (get_active_qr_session env st class_id date) k
           = py_get (get_qr_session st class_id date) k
         \<and> py_get (get_qr_session (snd (get_active_qr_session env st class_id date)) class_id date) k
           = py_get (get_qr_session st class_id date) k"
  using assms(9-11)
  unfolding get_active_due [OF assms(1-8)] returned_field_def assms(1)
  by (simp add: py_get_def dict_get_def map_of_rotated get_qr_session_def)

theorem rotation_frame_witness:
  "returned_field (get_active_qr_session (ex_env 6000000 ''WXYZ5678'')
       (ex_store [] (Some (JObj (ex_session 1 ''ABCD1234'' [JStr ''r1''])))) ''c1'' ''d1'')
       ''scanned_students'' = Inr (JList [JStr ''r1''])
   \<and> py_get (get_qr_session (snd (get_active_qr_session (ex_env 6000000 ''WXYZ5678'')
       (ex_store [] (Some (JObj (ex_session 1 ''ABCD1234'' [JStr ''r1''])))) ''c1'' ''d1'')) ''c1'' ''d1'')
       ''scanned_students'' = Inr (JList [JStr ''r1''])"
proof -
  let ?st = "ex_store [] (Some (JObj (ex_session 1 ''ABCD1234'' [JStr ''r1''])))"
  let ?e6 = "ex_env 6000000 ''WXYZ5678''"
  note facts = ex_session_facts
  have b: "5 * 1000000 \<le> utcnow ?e6 - 0"
    by (simp add: ex_env_def)
  have c: "py_get (get_qr_session ?st ''c1'' ''d1'') ''scanned_students'' = Inr (JList [JStr ''r1''])"
    unfolding facts(1) by (simp add: ex_session_def py_get_def dict_get_def)
  from rotation_frame [where env = ?e6 and k = "''scanned_students''" and st = ?st
      and session_data = "ex_session 1 ''ABCD1234'' [JStr ''r1'']",
      OF facts(1-4) facts(5) facts(6,7) b]
  show ?thesis unfolding c by simp
qed

text \<open>
  As stated, C10 names two changed fields only. The write goes through
  \<^verbatim>\<open>update_qr_session\<close>, which stamps \<^verbatim>\<open>updated_at\<close>: a session stored without
  the field is returned and stored with it.
\<close>

theorem rotation_frame_counterexample:
  "py_get (get_qr_session (ex_store [] (Some (JObj (ex_session 1 ''ABCD1234'' [])))) ''c1'' ''d1'')
       ''updated_at'' = Inr JNull
   \<and> returned_field (get_active_qr_session (ex_env 6000000 ''WXYZ5678'')
       (ex_store [] (Some (JObj (ex_session 1 ''ABCD1234'' [])))) ''c1'' ''d1'') ''updated_at''
     = Inr (JStr ''1970-01-01T00:00:06'')
   \<and> py_get (get_qr_session (snd (get_active_qr_session (ex_env 6000000 ''WXYZ5678'')
       (ex_store [] (Some (JObj (ex_session 1 ''ABCD1234'' [])))) ''c1'' ''d1'')) ''c1'' ''d1'')
       ''updated_at'' = Inr (JStr ''1970-01-01T00:00:06'')"
  by (simp add: returned_field_def get_active_qr_session_def rotate_def py_fromisoformat_def
        ex_defs store_defs py_defs)

section \<open>The number of sessions a date already has\<close>

lemma count_valid_marks_eq:
  "count_valid_marks ss = Inr n \<Longrightarrow>
     n = int (length (filter (\<lambda>s. py_get s ''status'' \<noteq> Inr JNull) ss))"
proof (induction ss arbitrary: n)
  case Nil then show ?case by simp
next
  case (Cons s ss)
  from Cons.prems obtain v m where v: "py_get s ''status'' = Inr v"
    and m: "count_valid_marks ss = Inr m" and n: "n = (if v \<noteq> JNull then m + 1 else m)"
    by (auto simp: ebind_Inr_iff)
  from Cons.IH [OF m] v n show ?case by simp
qed

lemma count_valid_marks_strs:
  "count_valid_marks (map f xs) = Inr n \<Longrightarrow> (\<And>x. \<exists>s. f x = JStr s) \<Longrightarrow> xs = []"
proof (cases xs)
  case (Cons a list)
  assume a: "count_valid_marks (map f xs) = Inr n" and f: "\<And>x. \<exists>s. f x = JStr s"
  from f [of a] obtain s where "f a = JStr s" by blast
  with a Cons show ?thesis by (simp add: py_get_def)
qed simp

lemma day_max_eq:
  assumes "day_max m day_data = Inr m'" and "0 \<le> m"
  shows "m' = max m (entry_count day_data)"
proof (cases "truthy day_data")
  case False
  with assms show ?thesis by (simp add: day_max_def entry_count_def)
next
  case True
  show ?thesis
  proof (cases day_data)
    case (JObj d)
    show ?thesis
    proof (cases "has_key d ''sessions''")
      case hk: True
      then have dg: "dict_get d ''sessions'' (JList []) = dict_get d ''sessions'' JNull"
        by (auto simp: has_key_def dict_get_def)
      from assms True JObj hk obtain elems n where
        it: "py_iter (dict_get d ''sessions'' JNull) = Inr elems"
        and n: "count_valid_marks elems = Inr n" and m': "m' = max m n"
        by (auto simp: day_max_def dg ebind_Inr_iff)
      show ?thesis
      proof (cases "dict_get d ''sessions'' JNull")
        case (JList ss)
        with it have "elems = ss" by simp
        with count_valid_marks_eq [OF n] m' True JObj hk JList show ?thesis
          by (simp add: entry_count_def)
      next
        case (JObj kvs)
        with it n have "kvs = []"
          using count_valid_marks_strs [of "\<lambda>kv. JStr (fst kv)" kvs n] by auto
        with it n JObj have "n = 0" by auto
        with m' True \<open>day_data = JObj d\<close> hk JObj show ?thesis
          by (simp add: entry_count_def)
      next
        case (JStr s)
        with it n have "s = []"
          using count_valid_marks_strs [of "\<lambda>c. JStr [c]" s n] by auto
        with it n JStr have "n = 0" by auto
        with m' True \<open>day_data = JObj d\<close> hk JStr show ?thesis
          by (simp add: entry_count_def)
      qed (use it in auto)
    next
      case False
      with assms True JObj show ?thesis
        by (auto simp: day_max_def entry_count_def split: if_splits option.splits)
    qed
  qed (use assms True in \<open>auto simp: day_max_def entry_count_def\<close>)
qed

lemma count_loop_eq:
  "count_loop date students m = Inr r \<Longrightarrow> 0 \<le> m \<Longrightarrow>
     r = Max (insert m ((\<lambda>s. entry_count (student_day date s)) ` set students))"
proof (induction students arbitrary: m)
  case Nil then show ?case by simp
next
  case (Cons student students)
  from Cons.prems obtain attendance day_data m' where
    a: "py_get_default student ''attendance'' (JObj []) = Inr attendance"
    and d: "py_get attendance date = Inr day_data"
    and m': "day_max m day_data = Inr m'"
    and r: "count_loop date students m' = Inr r"
    by (auto simp: ebind_Inr_iff)
  from a d have "day_data = student_day date student"
    by (cases student; cases attendance) (auto simp: student_day_def py_get_def)
  with day_max_eq [OF m' Cons.prems(2)]
  have m'': "m' = max m (entry_count (student_day date student))" by simp
  with Cons.prems(2) have "0 \<le> m'" by simp
  let ?S = "(\<lambda>s. entry_count (student_day date s)) ` set students"
  have "Max (insert m' ?S) = Max (insert m (insert (entry_count (student_day date student)) ?S))"
  proof (cases "?S = {}")
    case True
    then show ?thesis by (simp add: m'')
  next
    case False
    then show ?thesis by (simp add: m'' max.assoc)
  qed
  with Cons.IH [OF r \<open>0 \<le> m'\<close>] show ?case by (simp add: insert_commute)
qed

lemma count_loop_strs:
  "count_loop date (map f xs) m = Inr n \<Longrightarrow> (\<And>x. \<exists>s. f x = JStr s) \<Longrightarrow> xs = []"
proof (cases xs)
  case (Cons a list)
  assume a: "count_loop date (map f xs) m = Inr n" and f: "\<And>x. \<exists>s. f x = JStr s"
  from f [of a] obtain s where "f a = JStr s" by blast
  with a Cons show ?thesis by simp
qed simp

lemma count_valid_sessions_max:
  assumes "count_valid_sessions_for_date class_data date = Inr r"
  shows "r = Max (insert 0 ((\<lambda>student. entry_count (student_day date student))
                              ` set (class_students class_data)))"
proof (cases class_data)
  case (JObj d)
  let ?v = "dict_get d ''students'' (JList [])"
  show ?thesis
  proof (cases "truthy ?v")
    case False
    with assms JObj have r: "r = 0" by (simp add: count_valid_sessions_for_date_def)
    from False have "class_students class_data = []"
      by (cases ?v) (auto simp: class_students_def JObj)
    with r show ?thesis by simp
  next
    case True
    with assms JObj obtain xs where it: "py_iter ?v = Inr xs" and l: "count_loop date xs 0 = Inr r"
      by (auto simp: count_valid_sessions_for_date_def ebind_Inr_iff)
    show ?thesis
    proof (cases ?v)
      case (JList ss)
      with it have "xs = ss" by simp
      with count_loop_eq [OF l] JObj JList show ?thesis by (simp add: class_students_def)
    next
      case kv: (JObj kvs)
      with it l have "kvs = []"
        using count_loop_strs [of date "\<lambda>kv. JStr (fst kv)" kvs 0 r] by auto
      with True kv show ?thesis by simp
    next
      case (JStr s)
      with it l have "s = []"
        using count_loop_strs [of date "\<lambda>c. JStr [c]" s 0 r] by auto
      with True JStr show ?thesis by simp
    qed (use it in auto)
  qed
qed (use assms in \<open>auto simp: count_valid_sessions_for_date_def\<close>)

text \<open>
  Claim C5, as amended. \<^verbatim>\<open>_count_valid_sessions_for_date\<close> returns the maximum
  over the students of what the entry for the date counts, never the sum: nothing
  for a missing or falsy entry (the empty string among them), the number of marks
  with a non-null status for an object with \<^verbatim>\<open>sessions\<close>, the \<^verbatim>\<open>count\<close> field (1
  without one) for an object with a non-null \<^verbatim>\<open>status\<close>, and 1 for a non-empty
  string.
\<close>

theorem count_valid_sessions_is_max:
  assumes "count_valid_sessions_for_date class_data date = Inr r"
  shows "r = Max (insert 0 ((\<lambda>student. entry_count (student_day date student))
                              ` set (class_students class_data)))"
  using assms by (rule count_valid_sessions_max)

theorem count_valid_sessions_is_max_witness:
  "count_valid_sessions_for_date
     (ex_class [ex_student ''r1'' [(''d1'', JStr ''P'')],
                ex_student ''r2'' [(''d1'', JObj [(''sessions'',
                   JList [JObj [(''id'', JStr ''session_1''), (''status'', JStr ''P'')],
                          JObj [(''id'', JStr ''session_2''), (''status'', JStr ''A'')],
                          JObj [(''id'', JStr ''session_3''), (''status'', JNull)]])])],
                ex_student ''r3'' []]) ''d1'' = Inr 2
   \<and> (2::int) = Max (insert 0 ((\<lambda>student. entry_count (student_day ''d1'' student))
        ` set (class_students
     (ex_class [ex_student ''r1'' [(''d1'', JStr ''P'')],
                ex_student ''r2'' [(''d1'', JObj [(''sessions'',
                   JList [JObj [(''id'', JStr ''session_1''), (''status'', JStr ''P'')],
                          JObj [(''id'', JStr ''session_2''), (''status'', JStr ''A'')],
                          JObj [(''id'', JStr ''session_3''), (''status'', JNull)]])])],
                ex_student ''r3'' []]))))"
proof -
  have a: "count_valid_sessions_for_date
     (ex_class [ex_student ''r1'' [(''d1'', JStr ''P'')],
                ex_student ''r2'' [(''d1'', JObj [(''sessions'',
                   JList [JObj [(''id'', JStr ''session_1''), (''status'', JStr ''P'')],
                          JObj [(''id'', JStr ''session_2''), (''status'', JStr ''A'')],
                          JObj [(''id'', JStr ''session_3''), (''status'', JNull)]])])],
                ex_student ''r3'' []]) ''d1'' = Inr 2"
    by (simp add: count_valid_sessions_for_date_def day_max_def ex_defs py_defs)
  from count_valid_sessions_is_max [OF a] a show ?thesis by simp
qed

text \<open>
  As stated, C5 counts 1 for every string and 1 for an object with a status. The
  empty string is falsy and counts nothing, and an object with a status counts its
  \<^verbatim>\<open>count\<close> field.
\<close>

theorem count_valid_sessions_counterexample:
  "count_valid_sessions_for_date (ex_class [ex_student ''r1'' [(''d1'', JStr [])]]) ''d1'' = Inr 0
   \<and> count_valid_sessions_for_date
       (ex_class [ex_student ''r1'' [(''d1'', JObj [(''status'', JStr ''P''), (''count'', JInt 3)])]])
       ''d1'' = Inr 3"
  by (simp add: count_valid_sessions_for_date_def day_max_def ex_defs py_defs)

section \<open>Structured entries\<close>

lemma never_reverts_refl: "never_reverts n date mark marked x x"
  by (simp add: never_reverts_def)

lemma mark_student_never_reverts:
  assumes "mark_student m ow env qn date s = Inr s'" and "marked (JObj s)"
  shows "never_reverts qn date m marked (JObj s) s'"
proof -
  from mark_student_Inr [OF assms(1)] obtain r where
    r: "mark_entry m ow env qn (student_day date (JObj s)) = Inr r"
    and day: "\<And>date'. student_day date' s' =
                 (case r of Some v \<Rightarrow> if date' = date then v else student_day date' (JObj s)
                          | None \<Rightarrow> student_day date' (JObj s))"
    by blast
  have other: "\<forall>date'. date' \<noteq> date \<longrightarrow> student_day date' s' = student_day date' (JObj s)"
    using day by (cases r) simp_all
  have keep: "as_int qn \<noteq> Some 1 \<longrightarrow> structured (student_day date (JObj s)) \<longrightarrow>
                structured (student_day date s')"
  proof (intro impI)
    assume "as_int qn \<noteq> Some 1" and "structured (student_day date (JObj s))"
    with mark_entry_structured [OF r] obtain v where "r = Some v" "structured v" by blast
    with day [of date] show "structured (student_day date s')" by simp
  qed
  have first: "as_int qn = Some 1 \<longrightarrow> s' = JObj s \<or> student_day date s' = m"
  proof (intro impI)
    assume "as_int qn = Some 1"
    from mark_entry_first [OF this, of m ow env "student_day date (JObj s)"] r
    have "r = Some m" by simp
    with day [of date] show "s' = JObj s \<or> student_day date s' = m" by simp
  qed
  from assms(2) other keep first show ?thesis by (simp add: never_reverts_def)
qed

lemma scan_other_classes:
  "c' \<noteq> class_id \<Longrightarrow>
     get_class (snd (scan_qr_code env st student_id class_id qr_code date)) c' = get_class st c'"
  using scan_outcome [of env st student_id class_id qr_code date]
proof
  assume "c' \<noteq> class_id"
    and "\<exists>cd' sd rid qn st1.
         scan_prepare env st student_id class_id qr_code date = Inr (cd', sd, rid, qn)
         \<and> update_class env st class_id cd' = Inr st1
         \<and> get_class (snd (scan_qr_code env st student_id class_id qr_code date)) class_id
             = get_class st1 class_id"
  then obtain cd' sd rid qn st1 where
    prep: "scan_prepare env st student_id class_id qr_code date = Inr (cd', sd, rid, qn)"
    and upd: "update_class env st class_id cd' = Inr st1" by blast
  from update_class_cases [OF upd] \<open>c' \<noteq> class_id\<close>
  have "get_class st1 c' = get_class st c'" by (auto simp: get_class_def)
  with prep upd show ?thesis
    by (cases "record_scan (dict_get sd ''scanned_students'' (JList [])) rid")
       (simp_all add: scan_qr_code_def)
qed simp

lemma stop_other_classes:
  "c' \<noteq> class_id \<Longrightarrow>
     get_class (snd (stop_qr_session env st class_id teacher_id date)) c' = get_class st c'"
  using stop_outcome [of env st class_id teacher_id date]
proof
  assume "c' \<noteq> class_id"
    and "\<exists>cd' sd result st1.
         stop_prepare env st class_id teacher_id date = Inr (cd', sd, result)
         \<and> update_class env st class_id cd' = Inr st1
         \<and> stop_qr_session env st class_id teacher_id date =
             (Inr result, update_qr_session env st1 class_id date
                (AList.update ''stopped_at'' (now_iso env)
                   (AList.update ''status'' (JStr ''stopped'') sd)))"
  then obtain cd' sd result st1 where
    upd: "update_class env st class_id cd' = Inr st1"
    and res: "stop_qr_session env st class_id teacher_id date =
             (Inr result, update_qr_session env st1 class_id date
                (AList.update ''stopped_at'' (now_iso env)
                   (AList.update ''status'' (JStr ''stopped'') sd)))" by blast
  from update_class_cases [OF upd] \<open>c' \<noteq> class_id\<close>
  have "get_class st1 c' = get_class st c'" by (auto simp: get_class_def)
  with res show ?thesis by simp
qed simp

text \<open>
  Claim C4, as amended. Once an entry is structured, no scan and no stop replaces
  it by a scalar, with one exception: in a session whose number is 1 the entry for
  the date of the session of a record the operation marks (the record of the
  scanning student; for a stop, the actively enrolled records not scanned) is
  assigned the scalar mark. The records of every other class, the records the
  operation does not mark and the entries of every other date are left as they are,
  and in a session whose number is not 1 a structured entry stays structured.
\<close>

theorem structured_never_reverts:
  "list_all2 (never_reverts (session_number_of st class_id date) date (JStr ''P'')
                (\<lambda>s. record_id s = scan_target st class_id student_id))
     (class_students (get_class st class_id))
     (class_students (get_class (snd (scan_qr_code env st student_id class_id qr_code date))
        class_id))
   \<and> list_all2 (never_reverts (session_number_of st class_id date) date (JStr ''A'')
                (touched (sweep_active st class_id) (session_scanned st class_id date)))
     (class_students (get_class st class_id))
     (class_students (get_class (snd (stop_qr_session env st class_id teacher_id date))
        class_id))
   \<and> (c' \<noteq> class_id \<longrightarrow>
        get_class (snd (scan_qr_code env st student_id class_id qr_code date)) c' = get_class st c'
        \<and> get_class (snd (stop_qr_session env st class_id teacher_id date)) c' = get_class st c')"
proof (intro conjI impI)
  show "list_all2 (never_reverts (session_number_of st class_id date) date (JStr ''P'')
                (\<lambda>s. record_id s = scan_target st class_id student_id))
     (class_students (get_class st class_id))
     (class_students (get_class (snd (scan_qr_code env st student_id class_id qr_code date))
        class_id))"
  proof (rule scan_students_rel)
    fix s s'
    assume "mark_student (JStr ''P'') True env (session_number_of st class_id date) date s = Inr s'"
      and "record_id (JObj s) = scan_target st class_id student_id"
    then show "never_reverts (session_number_of st class_id date) date (JStr ''P'')
                (\<lambda>s. record_id s = scan_target st class_id student_id) (JObj s) s'"
      by (rule mark_student_never_reverts)
  qed (rule never_reverts_refl)
  show "list_all2 (never_reverts (session_number_of st class_id date) date (JStr ''A'')
                (touched (sweep_active st class_id) (session_scanned st class_id date)))
     (class_students (get_class st class_id))
     (class_students (get_class (snd (stop_qr_session env st class_id teacher_id date))
        class_id))"
  proof (rule stop_students_rel)
    fix s s'
    assume "mark_student (JStr ''A'') False env (session_number_of st class_id date) date s = Inr s'"
      and "touched (sweep_active st class_id) (session_scanned st class_id date) (JObj s)"
    then show "never_reverts (session_number_of st class_id date) date (JStr ''A'')
                (touched (sweep_active st class_id) (session_scanned st class_id date)) (JObj s) s'"
      by (rule mark_student_never_reverts)
  qed (rule never_reverts_refl)
qed (simp_all add: scan_other_classes stop_other_classes)

theorem structured_never_reverts_witness:
  "structured (student_day ''d1''
     (class_students (get_class (snd (scan_qr_code (ex_env 0 ''ABCD1234'')
        (ex_store [ex_student ''r1'' [(''d0'', JStr ''P''), (''d1'', ex_first_entry)],
                   ex_student ''r2'' [(''d1'', ex_first_entry)]]
           (Some (JObj (ex_session 2 ''ABCD1234'' [])))) ''s1'' ''c1'' ''ABCD1234'' ''d1'')) ''c1'') ! 0))
   \<and> student_day ''d0''
     (class_students (get_class (snd (scan_qr_code (ex_env 0 ''ABCD1234'')
        (ex_store [ex_student ''r1'' [(''d0'', JStr ''P''), (''d1'', ex_first_entry)],
                   ex_student ''r2'' [(''d1'', ex_first_entry)]]
           (Some (JObj (ex_session 2 ''ABCD1234'' [])))) ''s1'' ''c1'' ''ABCD1234'' ''d1'')) ''c1'') ! 0)
     = JStr ''P''
   \<and> class_students (get_class (snd (scan_qr_code (ex_env 0 ''ABCD1234'')
        (ex_store [ex_student ''r1'' [(''d0'', JStr ''P''), (''d1'', ex_first_entry)],
                   ex_student ''r2'' [(''d1'', ex_first_entry)]]
           (Some (JObj (ex_session 2 ''ABCD1234'' [])))) ''s1'' ''c1'' ''ABCD1234'' ''d1'')) ''c1'') ! 1
     = ex_student ''r2'' [(''d1'', ex_first_entry)]
   \<and> structured (student_day ''d1''
     (class_students (get_class (snd (stop_qr_session (ex_env 0 ''ABCD1234'')
        (ex_store [ex_student ''r1'' [(''d0'', JStr ''P''), (''d1'', ex_first_entry)],
                   ex_student ''r2'' [(''d1'', ex_first_entry)]]
           (Some (JObj (ex_session 2 ''ABCD1234'' [])))) ''c1'' ''t1'' ''d1'')) ''c1'') ! 0))
   \<and> get_class (snd (scan_qr_code (ex_env 0 ''ABCD1234'')
        (ex_store [ex_student ''r1'' [(''d0'', JStr ''P''), (''d1'', ex_first_entry)],
                   ex_student ''r2'' [(''d1'', ex_first_entry)]]
           (Some (JObj (ex_session 2 ''ABCD1234'' [])))) ''s1'' ''c1'' ''ABCD1234'' ''d1'')) ''c2''
     = JNull"
proof -
  let ?xs = "[ex_student ''r1'' [(''d0'', JStr ''P''), (''d1'', ex_first_entry)],
              ex_student ''r2'' [(''d1'', ex_first_entry)]]"
  let ?st = "ex_store ?xs (Some (JObj (ex_session 2 ''ABCD1234'' [])))"
  let ?env = "ex_env 0 ''ABCD1234''"
  have xs: "class_students (get_class ?st ''c1'') = ?xs"
    by (simp add: class_students_def get_class_def ex_store_def ex_class_def dict_get_def)
  have n: "as_int (session_number_of ?st ''c1'' ''d1'') \<noteq> Some 1"
    by (simp add: session_number_of_def get_qr_session_def ex_store_def ex_session_def dict_get_def)
  have target: "scan_target ?st ''c1'' ''s1'' = JStr ''r1''"
    by (simp add: scan_target_def get_enrollments_def ex_store_def ex_enrollment_def py_defs)
  have st0: "structured (student_day ''d1'' (?xs ! 0))" "student_day ''d0'' (?xs ! 0) = JStr ''P''"
    by (simp_all add: structured_def student_day_def ex_student_def ex_first_entry_def py_defs)
  have id1: "record_id (?xs ! 1) \<noteq> JStr ''r1''"
    by (simp add: record_id_def ex_student_def dict_get_def)
  have other: "get_class ?st ''c2'' = JNull"
    by (simp add: get_class_def ex_store_def)
  note inst = structured_never_reverts [of ?st "''c1''" "''d1''" "''s1''" ?env "''ABCD1234''"
      "''t1''" "''c2''"]
  from inst have
    "never_reverts (session_number_of ?st ''c1'' ''d1'') ''d1'' (JStr ''P'')
       (\<lambda>s. record_id s = scan_target ?st ''c1'' ''s1'') (?xs ! 0)
       (class_students (get_class (snd (scan_qr_code ?env ?st ''s1'' ''c1'' ''ABCD1234'' ''d1''))
          ''c1'') ! 0)"
    "never_reverts (session_number_of ?st ''c1'' ''d1'') ''d1'' (JStr ''P'')
       (\<lambda>s. record_id s = scan_target ?st ''c1'' ''s1'') (?xs ! 1)
       (class_students (get_class (snd (scan_qr_code ?env ?st ''s1'' ''c1'' ''ABCD1234'' ''d1''))
          ''c1'') ! 1)"
    "never_reverts (session_number_of ?st ''c1'' ''d1'') ''d1'' (JStr ''A'')
       (touched (sweep_active ?st ''c1'') (session_scanned ?st ''c1'' ''d1'')) (?xs ! 0)
       (class_students (get_class (snd (stop_qr_session ?env ?st ''c1'' ''t1'' ''d1''))
          ''c1'') ! 0)"
    unfolding xs by (auto dest: list_all2_nthD)
  moreover from inst other have
    "get_class (snd (scan_qr_code ?env ?st ''s1'' ''c1'' ''ABCD1234'' ''d1'')) ''c2'' = JNull"
    by simp
  ultimately show ?thesis
    using n st0 id1 unfolding never_reverts_def target by simp
qed

text \<open>
  As stated, C4 holds for every session. In session 1, which \<^verbatim>\<open>start_qr_session\<close>
  opens when the only entry of the date is a structured one whose status is null,
  the scan and the stop replace that entry by the scalar mark.
\<close>

theorem structured_never_reverts_counterexample:
  "returned_field (start_qr_session (ex_env 0 ''ABCD1234'')
       (ex_store [ex_student ''r1'' [(''d1'', ex_null_entry)]] None) ''c1'' ''t1'' ''d1'' 5)
     ''session_number'' = Inr (JInt 1)
   \<and> structured (student_day ''d1''
     (class_students (get_class (ex_store [ex_student ''r1'' [(''d1'', ex_null_entry)]]
        (Some (JObj (ex_session 1 ''ABCD1234'' [])))) ''c1'') ! 0))
   \<and> student_day ''d1''
     (class_students (get_class (snd (scan_qr_code (ex_env 0 ''ABCD1234'')
        (ex_store [ex_student ''r1'' [(''d1'', ex_null_entry)]]
           (Some (JObj (ex_session 1 ''ABCD1234'' [])))) ''s1'' ''c1'' ''ABCD1234'' ''d1'')) ''c1'') ! 0)
     = JStr ''P''
   \<and> student_day ''d1''
     (class_students (get_class (snd (stop_qr_session (ex_env 0 ''ABCD1234'')
        (ex_store [ex_student ''r1'' [(''d1'', ex_null_entry)]]
           (Some (JObj (ex_session 1 ''ABCD1234'' [])))) ''c1'' ''t1'' ''d1'')) ''c1'') ! 0)
     = JStr ''A''"
proof (intro conjI)
  show "returned_field (start_qr_session (ex_env 0 ''ABCD1234'')
       (ex_store [ex_student ''r1'' [(''d1'', ex_null_entry)]] None) ''c1'' ''t1'' ''d1'' 5)
     ''session_number'' = Inr (JInt 1)"
    by (simp add: returned_field_def start_qr_session_def start_prepare_def
          count_valid_sessions_for_date_def day_max_def ex_null_entry_def ex_defs store_defs py_defs)
  show "structured (student_day ''d1''
     (class_students (get_class (ex_store [ex_student ''r1'' [(''d1'', ex_null_entry)]]
        (Some (JObj (ex_session 1 ''ABCD1234'' [])))) ''c1'') ! 0))"
    by (simp add: structured_def student_day_def class_students_def ex_null_entry_def
          ex_defs store_defs py_defs)
  show "student_day ''d1''
     (class_students (get_class (snd (scan_qr_code (ex_env 0 ''ABCD1234'')
        (ex_store [ex_student ''r1'' [(''d1'', ex_null_entry)]]
           (Some (JObj (ex_session 1 ''ABCD1234'' [])))) ''s1'' ''c1'' ''ABCD1234'' ''d1'')) ''c1'') ! 0)
     = JStr ''P''"
    by (simp add: scan_defs mark_defs student_day_def class_students_def ex_null_entry_def
          ex_defs store_defs py_defs Let_def)
  show "student_day ''d1''
     (class_students (get_class (snd (stop_qr_session (ex_env 0 ''ABCD1234'')
        (ex_store [ex_student ''r1'' [(''d1'', ex_null_entry)]]
           (Some (JObj (ex_session 1 ''ABCD1234'' [])))) ''c1'' ''t1'' ''d1'')) ''c1'') ! 0)
     = JStr ''A''"
    by (simp add: stop_defs mark_defs student_day_def class_students_def ex_null_entry_def
          ex_defs store_defs py_defs Let_def)
qed

section \<open>Stopping a session marks the absent\<close>

lemma stop_success:
  assumes res: "fst (stop_qr_session env st c t d) = Inr r"
      and tid: "py_get (get_class st c) ''teacher_id'' = Inr (JStr tid)" "tid \<noteq> []"
  shows "list_all2 (\<lambda>x x'. \<exists>s. x = JObj s \<and>
            (if touched (sweep_active st c) (session_scanned st c d) x
             then mark_student (JStr ''A'') False env (session_number_of st c d) d s = Inr x'
             else x' = x))
           (class_students (get_class st c))
           (class_students (get_class (snd (stop_qr_session env st c t d)) c))"
    and "r = stop_result (session_scanned st c d)
               (length (filter (touched (sweep_active st c) (session_scanned st c d))
                          (class_students (get_class st c)))) d (session_number_of st c d)"
    and "classes (snd (stop_qr_session env st c t d))
           = (classes st)(c \<mapsto> get_class (snd (stop_qr_session env st c t d)) c)"
    and "py_get (get_qr_session (snd (stop_qr_session env st c t d)) c d) ''status''
           = Inr (JStr ''stopped'')"
    and "py_get (get_class (snd (stop_qr_session env st c t d)) c) ''teacher_id''
           = Inr (JStr tid)"
proof -
  from res obtain cd' sd result where
    prep: "stop_prepare env st c t d = Inr (cd', sd, result)"
    by (cases "stop_prepare env st c t d") (auto simp: stop_qr_session_def)
  from res prep obtain st1 where upd: "update_class env st c cd' = Inr st1"
    by (cases "update_class env st c cd'") (auto simp: stop_qr_session_def)
  from res prep upd have r: "r = result"
    and st': "snd (stop_qr_session env st c t d) = update_qr_session env st1 c d
                (AList.update ''stopped_at'' (now_iso env)
                   (AList.update ''status'' (JStr ''stopped'') sd))"
    by (simp_all add: stop_qr_session_def)
  from stop_prepare_Inr [OF prep] obtain scanned active cd students' k where
    sess: "get_qr_session st c d = JObj sd"
    and sc: "py_iter (dict_get sd ''scanned_students'' (JList [])) = Inr scanned"
    and ac: "active_student_ids (get_enrollments st c) = Inr active"
    and cd: "get_class st c = JObj cd"
    and al: "absent_loop env (dict_get sd ''session_number'' (JInt 1)) d active scanned
                    (class_students (JObj cd)) = Inr (students', k)"
    and cs': "class_students (JObj cd') = students'"
    and t': "dict_get cd' ''teacher_id'' JNull = dict_get cd ''teacher_id'' JNull"
    and result: "result = stop_result scanned k d (dict_get sd ''session_number'' (JInt 1))"
    by auto
  from sess have qn: "dict_get sd ''session_number'' (JInt 1) = session_number_of st c d"
    by (simp add: session_number_of_def)
  from sess sc have sc': "session_scanned st c d = scanned"
    by (simp add: session_scanned_def)
  from ac have ac': "sweep_active st c = active"
    by (simp add: sweep_active_def)
  from tid cd t' have tcd': "dict_get cd' ''teacher_id'' JNull = JStr tid"
    by (simp add: py_get_def)
  from update_class_writes [OF tcd' tid(2), of env st c] upd
  have st1: "st1 = st\<lparr>classes := (classes st)(c \<mapsto> JObj (stamp env cd'))\<rparr>" by simp
  have gc: "get_class (snd (stop_qr_session env st c t d)) c = JObj (stamp env cd')"
    unfolding st' st1 by simp
  note al' = absent_loop_Inr [OF al, unfolded qn]
  show "list_all2 (\<lambda>x x'. \<exists>s. x = JObj s \<and>
            (if touched (sweep_active st c) (session_scanned st c d) x
             then mark_student (JStr ''A'') False env (session_number_of st c d) d s = Inr x'
             else x' = x))
           (class_students (get_class st c))
           (class_students (get_class (snd (stop_qr_session env st c t d)) c))"
    unfolding gc sc' ac' cd using al' cs' by simp
  show "r = stop_result (session_scanned st c d)
               (length (filter (touched (sweep_active st c) (session_scanned st c d))
                          (class_students (get_class st c)))) d (session_number_of st c d)"
    unfolding sc' ac' cd using al' r result qn by simp
  show "classes (snd (stop_qr_session env st c t d))
           = (classes st)(c \<mapsto> get_class (snd (stop_qr_session env st c t d)) c)"
    unfolding gc unfolding st' st1 by (simp add: update_qr_session_def)
  show "py_get (get_qr_session (snd (stop_qr_session env st c t d)) c d) ''status''
           = Inr (JStr ''stopped'')"
    unfolding st' by (simp add: py_get_def stamp_def dict_get_update)
  show "py_get (get_class (snd (stop_qr_session env st c t d)) c) ''teacher_id''
           = Inr (JStr tid)"
    unfolding gc using tcd' by (simp add: py_get_def stamp_def dict_get_update)
qed

lemma mark_student_swept:
  assumes "mark_student (JStr ''A'') False env qn date s = Inr x'"
      and "as_int qn = Some n" and "1 \<le> n"
  shows "record_id x' = record_id (JObj s)
        \<and> (lacks_session (nat n) (student_day date (JObj s)) \<longrightarrow>
              session_mark (nat n) (student_day date x') = JStr ''A'')
        \<and> (nat n = 1 \<longrightarrow> student_day date x' = JStr ''A'')"
proof -
  from mark_student_Inr [OF assms(1)] obtain r where
    r: "mark_entry (JStr ''A'') False env qn (student_day date (JObj s)) = Inr r"
    and day: "\<And>date'. student_day date' x' =
                 (case r of Some v \<Rightarrow> if date' = date then v else student_day date' (JObj s)
                          | None \<Rightarrow> student_day date' (JObj s))"
    and rid: "record_id x' = record_id (JObj s)"
    by blast
  have a: "lacks_session (nat n) (student_day date (JObj s)) \<longrightarrow>
              session_mark (nat n) (student_day date x') = JStr ''A''"
  proof
    assume "lacks_session (nat n) (student_day date (JObj s))"
    then have "lacks_session (nat n) (student_day date (JObj s))
                \<or> (False \<and> structured (student_day date (JObj s)))" by simp
    from mark_entry_marks [OF r assms(2,3) this] day [of date]
    show "session_mark (nat n) (student_day date x') = JStr ''A''" by auto
  qed
  have b: "nat n = 1 \<longrightarrow> student_day date x' = JStr ''A''"
  proof
    assume "nat n = 1"
    with assms(2,3) have "as_int qn = Some 1" by simp
    from mark_entry_first [OF this, of "JStr ''A''" False env "student_day date (JObj s)"] r
    have "r = Some (JStr ''A'')" by simp
    with day [of date] show "student_day date x' = JStr ''A''" by simp
  qed
  from rid a b show ?thesis by simp
qed

lemmas sweep_defs = sweep_active_def session_scanned_def session_number_of_def touched_def
  record_id_def scan_target_def

lemma ex_upt: "[Suc 0..<3] = [Suc 0, 2]" "[Suc 0..<2] = [Suc 0]"
  by (simp_all add: upt_rec)

lemma ex_ids: "str_nat (Suc 0) = ''1''" "str_nat 2 = ''2''" "str_nat 1 = ''1''"
  by (simp_all add: str_nat.simps)


text \<open>
  Claim C3, as amended. A successful stop of session \<open>n\<close> on a class whose record
  names its teacher marks exactly the records of the class whose identifier is
  among the active enrollments and not among the scanned students: every other
  record is left as it is. A marked record gets the scalar \<^verbatim>\<open>"A"\<close> when \<open>n\<close> is 1,
  and \<^verbatim>\<open>"A"\<close> for session \<open>n\<close> when its entry for the date was missing, a string,
  or a structured entry not yet listing that session. The class is stored with all
  its records swept and no other class record changes; \<^verbatim>\<open>scanned_count\<close> is the
  number of distinct scanned students, \<^verbatim>\<open>absent_count\<close> the number of marked
  records, and the session is stored as stopped.
\<close>

theorem stop_marks_absent:
  assumes "fst (stop_qr_session env st class_id teacher_id date) = Inr r"
      and "py_get (get_class st class_id) ''teacher_id'' = Inr (JStr owner)" and "owner \<noteq> []"
      and "as_int (session_number_of st class_id date) = Some n" and "1 \<le> n"
  shows "list_all2 (swept (nat n) date
                      (touched (sweep_active st class_id) (session_scanned st class_id date)))
           (class_students (get_class st class_id))
           (class_students (get_class (snd (stop_qr_session env st class_id teacher_id date)) class_id))
       \<and> classes (snd (stop_qr_session env st class_id teacher_id date))
           = (classes st)(class_id \<mapsto>
                get_class (snd (stop_qr_session env st class_id teacher_id date)) class_id)
       \<and> py_get r ''scanned_count''
           = Inr (JInt (int (card (set (session_scanned st class_id date)))))
       \<and> py_get r ''absent_count''
           = Inr (JInt (int (length (filter
                (touched (sweep_active st class_id) (session_scanned st class_id date))
                (class_students (get_class st class_id))))))
       \<and> py_get (get_qr_session (snd (stop_qr_session env st class_id teacher_id date)) class_id date)
            ''status'' = Inr (JStr ''stopped'')"
proof (intro conjI)
  note s = stop_success [OF assms(1-3)]
  show "list_all2 (swept (nat n) date
                      (touched (sweep_active st class_id) (session_scanned st class_id date)))
           (class_students (get_class st class_id))
           (class_students (get_class (snd (stop_qr_session env st class_id teacher_id date)) class_id))"
    using s(1)
  proof (rule list_all2_mono)
    fix x x'
    assume "\<exists>s. x = JObj s \<and>
            (if touched (sweep_active st class_id) (session_scanned st class_id date) x
             then mark_student (JStr ''A'') False env (session_number_of st class_id date) date s
                    = Inr x'
             else x' = x)"
    then show "swept (nat n) date
                 (touched (sweep_active st class_id) (session_scanned st class_id date)) x x'"
      using mark_student_swept [OF _ assms(4,5)]
      by (auto simp: swept_def split: if_splits)
  qed
  show "classes (snd (stop_qr_session env st class_id teacher_id date))
           = (classes st)(class_id \<mapsto>
                get_class (snd (stop_qr_session env st class_id teacher_id date)) class_id)"
    by (rule s(3))
  show "py_get r ''scanned_count''
           = Inr (JInt (int (card (set (session_scanned st class_id date)))))"
    unfolding s(2) by (simp add: stop_result_def py_get_def dict_get_def)
  show "py_get r ''absent_count''
           = Inr (JInt (int (length (filter
                (touched (sweep_active st class_id) (session_scanned st class_id date))
                (class_students (get_class st class_id))))))"
    unfolding s(2) by (simp add: stop_result_def py_get_def dict_get_def)
  show "py_get (get_qr_session (snd (stop_qr_session env st class_id teacher_id date)) class_id date)
            ''status'' = Inr (JStr ''stopped'')"
    by (rule s(4))
qed

theorem stop_marks_absent_witness:
  "fst (stop_qr_session (ex_env 0 ''ABCD1234'')
          (ex_store [ex_student ''r1'' [(''d1'', JStr ''P'')], ex_student ''r2'' [(''d1'', JStr ''P'')],
                     ex_student ''r3'' []]
             (Some (JObj (ex_session 1 ''ABCD1234'' [JStr ''r1'', JStr ''r2'']))))
          ''c1'' ''t1'' ''d1'')
     = Inr (JObj [(''success'', JBool True), (''scanned_count'', JInt 2), (''absent_count'', JInt 1),
                  (''date'', JStr ''d1''), (''session_number'', JInt 1)])
   \<and> student_day ''d1'' (class_students (get_class (snd (stop_qr_session (ex_env 0 ''ABCD1234'')
          (ex_store [ex_student ''r1'' [(''d1'', JStr ''P'')], ex_student ''r2'' [(''d1'', JStr ''P'')],
                     ex_student ''r3'' []]
             (Some (JObj (ex_session 1 ''ABCD1234'' [JStr ''r1'', JStr ''r2'']))))
          ''c1'' ''t1'' ''d1'')) ''c1'') ! 2) = JStr ''A''
   \<and> class_students (get_class (snd (stop_qr_session (ex_env 0 ''ABCD1234'')
          (ex_store [ex_student ''r1'' [(''d1'', JStr ''P'')], ex_student ''r2'' [(''d1'', JStr ''P'')],
                     ex_student ''r3'' []]
             (Some (JObj (ex_session 1 ''ABCD1234'' [JStr ''r1'', JStr ''r2'']))))
          ''c1'' ''t1'' ''d1'')) ''c1'') ! 0 = ex_student ''r1'' [(''d1'', JStr ''P'')]
   \<and> py_get (get_qr_session (snd (stop_qr_session (ex_env 0 ''ABCD1234'')
          (ex_store [ex_student ''r1'' [(''d1'', JStr ''P'')], ex_student ''r2'' [(''d1'', JStr ''P'')],
                     ex_student ''r3'' []]
             (Some (JObj (ex_session 1 ''ABCD1234'' [JStr ''r1'', JStr ''r2'']))))
          ''c1'' ''t1'' ''d1'')) ''c1'' ''d1'') ''status'' = Inr (JStr ''stopped'')"
proof -
  let ?xs = "[ex_student ''r1'' [(''d1'', JStr ''P'')], ex_student ''r2'' [(''d1'', JStr ''P'')],
              ex_student ''r3'' []]"
  let ?st = "ex_store ?xs (Some (JObj (ex_session 1 ''ABCD1234'' [JStr ''r1'', JStr ''r2''])))"
  let ?env = "ex_env 0 ''ABCD1234''"
  have res: "fst (stop_qr_session ?env ?st ''c1'' ''t1'' ''d1'')
     = Inr (JObj [(''success'', JBool True), (''scanned_count'', JInt 2), (''absent_count'', JInt 1),
                  (''date'', JStr ''d1''), (''session_number'', JInt 1)])"
    by (simp add: stop_defs mark_defs ex_defs store_defs py_defs Let_def)
  have own: "py_get (get_class ?st ''c1'') ''teacher_id'' = Inr (JStr ''t1'')" "''t1'' \<noteq> []"
    by (simp_all add: ex_defs store_defs py_defs)
  have n: "as_int (session_number_of ?st ''c1'' ''d1'') = Some 1" "(1::int) \<le> 1"
    by (simp_all add: sweep_defs ex_defs store_defs py_defs)
  have xs: "class_students (get_class ?st ''c1'') = ?xs"
    by (simp add: class_students_def ex_defs store_defs py_defs)
  have t: "touched (sweep_active ?st ''c1'') (session_scanned ?st ''c1'' ''d1'') (?xs ! 2)"
    "\<not> touched (sweep_active ?st ''c1'') (session_scanned ?st ''c1'' ''d1'') (?xs ! 0)"
    by (simp_all add: sweep_defs ex_defs store_defs py_defs)
  note inst = stop_marks_absent [OF res own n]
  from inst have la: "list_all2
      (swept 1 ''d1'' (touched (sweep_active ?st ''c1'') (session_scanned ?st ''c1'' ''d1'')))
      ?xs (class_students (get_class (snd (stop_qr_session ?env ?st ''c1'' ''t1'' ''d1'')) ''c1''))"
    unfolding xs by simp
  have l2: "2 < length ?xs" and l0: "0 < length ?xs" by simp_all
  from list_all2_nthD [OF la l2] t(1) have
    a: "student_day ''d1'' (class_students (get_class (snd (stop_qr_session ?env ?st ''c1'' ''t1'' ''d1''))
          ''c1'') ! 2) = JStr ''A''"
    unfolding swept_def by simp
  from list_all2_nthD [OF la l0] t(2) have
    b: "class_students (get_class (snd (stop_qr_session ?env ?st ''c1'' ''t1'' ''d1''))
          ''c1'') ! 0 = ?xs ! 0"
    unfolding swept_def by simp
  from res inst a b show ?thesis by simp
qed

text \<open>
  As stated, C3 gives every such student the mark \<^verbatim>\<open>"A"\<close> for the session. An
  entry that already lists the session keeps the status it has, here null, and an
  entry that is an object without \<^verbatim>\<open>sessions\<close> is not touched at all; the
  first student is counted in \<^verbatim>\<open>absent_count\<close> all the same.
\<close>

theorem stop_marks_absent_counterexample:
  "session_mark 2 (student_day ''d1'' (class_students (get_class (snd (stop_qr_session
          (ex_env 0 ''ABCD1234'')
          (ex_store [ex_student ''r1'' [(''d1'', ex_second_null)]]
             (Some (JObj (ex_session 2 ''ABCD1234'' []))))
          ''c1'' ''t1'' ''d1'')) ''c1'') ! 0)) = JNull
   \<and> student_day ''d1'' (class_students (get_class (snd (stop_qr_session
          (ex_env 0 ''ABCD1234'')
          (ex_store [ex_student ''r1'' [(''d1'', ex_status_entry)]]
             (Some (JObj (ex_session 2 ''ABCD1234'' []))))
          ''c1'' ''t1'' ''d1'')) ''c1'') ! 0) = ex_status_entry
   \<and> py_get (projr (fst (stop_qr_session
          (ex_env 0 ''ABCD1234'')
          (ex_store [ex_student ''r1'' [(''d1'', ex_second_null)]]
             (Some (JObj (ex_session 2 ''ABCD1234'' []))))
          ''c1'' ''t1'' ''d1''))) ''absent_count'' = Inr (JInt 1)"
  by (simp add: stop_defs mark_defs ex_defs store_defs py_defs Let_def ex_upt ex_ids
        session_mark_def session_status_def record_id_def student_day_def class_students_def
        ex_second_null_def ex_status_entry_def touched_def)

section \<open>Session numbering\<close>


lemma entry_count_scalar [simp]: "entry_count (JStr ''A'') = 1"
  by (simp add: entry_count_def)






end
